theory Spec2Isabelle
  imports Complex_Main "HOL-Library.Word"
begin

section \<open>Vulkan2D: descriptor pool controller and renderer frame state machine\<close>

text \<open>
  The development embeds two parts of the repository.

  \<^item> \<^verbatim>\<open>VK2D/DescriptorControl.c\<close>: the growable list of descriptor pools.
  \<^item> \<^verbatim>\<open>Renderer.c\<close>, which the sources hold in two revisions: an earlier file whose
    user-visible functions use the singleton \<^verbatim>\<open>gRenderer\<close> unguarded and which
    contains the internal procedures (swapchain rebuild and the procedures it calls),
    and a later file whose user-visible functions test the singleton first and track
    the active frame in \<^verbatim>\<open>procedStartFrame\<close>. Functions of the earlier file carry the
    suffix \<open>_A\<close> where both files define the name.

  The Vulkan driver, the C allocator and SDL are outside the repository. They are
  modelled by a small world state: the driver's descriptor pool objects, two memory
  budgets that decide when an allocation is refused, and the list of calls made so
  far. Undefined behaviour of C (a null dereference, an access outside an allocated
  block, a division by zero) and of Vulkan (the use of a handle that denotes no
  object) is a \<open>fault\<close>: the function returns \<open>Inl\<close> and no state.

  The counters of the source are \<^verbatim>\<open>uint32_t\<close>. They count live objects (pools, frame
  slots, swapchain images), and are modelled as natural numbers.
\<close>

subsection \<open>Handles, results, constants\<close>

type_synonym handle = nat

definition VK_NULL_HANDLE :: handle where
  "VK_NULL_HANDLE = 0"

datatype VkResult =
    VK_SUCCESS
  | VK_SUBOPTIMAL_KHR
  | VK_ERROR_OUT_OF_HOST_MEMORY
  | VK_ERROR_OUT_OF_DEVICE_MEMORY
  | VK_ERROR_DEVICE_LOST
  | VK_ERROR_FRAGMENTED_POOL
  | VK_ERROR_OUT_OF_POOL_MEMORY
  | VK_ERROR_OUT_OF_DATE_KHR
  | VK_ERROR_SURFACE_LOST_KHR

datatype VkDescriptorType =
    VK_DESCRIPTOR_TYPE_UNIFORM_BUFFER
  | VK_DESCRIPTOR_TYPE_SAMPLED_IMAGE
  | VK_DESCRIPTOR_TYPE_STORAGE_BUFFER

text \<open>
  A descriptor set handle names the pool it was carved from and its slot in that pool,
  so that a pool that has been reset hands out the same handles again.
\<close>

datatype VkDescriptorSet = NullSet | DescriptorSet handle nat

datatype fault = NullDereference | OutOfBounds | InvalidHandle | DivisionByZero | Hang

text \<open>
  The constants of \<^verbatim>\<open>VK2D/Constants.h\<close>, which is not among the sources, are
  parameters of every function that uses one.
\<close>

record Constants =
  VK2D_DEFAULT_ARRAY_EXTENSION :: nat
  VK2D_DEFAULT_DESCRIPTOR_POOL_ALLOCATION :: nat
  VK2D_NO_LOCATION :: "32 word"
  VK2D_MAX_FRAMES_IN_FLIGHT :: nat
  VK2D_DEVICE_COMMAND_POOLS :: nat
  VK2D_MAX_CAMERAS :: nat
  VK2D_DEFAULT_CAMERA :: nat
  VK2D_INVALID_CAMERA :: nat
  VK2D_TARGET_SCREEN :: nat
  cs_Normal :: nat
  bm_None :: nat
  msaa_1x :: nat

subsection \<open>The world outside the repository\<close>

record VkDescriptorPoolObject =
  maxSets :: nat
  poolSizes :: "(VkDescriptorType \<times> nat) list"
  setsAllocated :: nat

datatype VkImageLayout =
    VK_IMAGE_LAYOUT_COLOR_ATTACHMENT_OPTIMAL
  | VK_IMAGE_LAYOUT_SHADER_READ_ONLY_OPTIMAL

text \<open>
  The objects that the swapchain rebuild destroys and creates, one name for each pair
  of procedures \<^verbatim>\<open>_vk2dRendererDestroyX\<close> and \<^verbatim>\<open>_vk2dRendererCreateX\<close>.
\<close>

datatype Subsystem =
    Synchronization
  | Sampler
  | DescriptorPool
  | UniformBuffers
  | FrameBuffer
  | Pipelines
  | RenderPass
  | DepthStencilImage
  | ColourResources
  | Swapchain
  | TargetsList
  | Units
  | DescriptorSetLayout
  | WindowSurface
  | Debug
  | Allocator
  | LogicalDevice
  | PhysicalDevice

datatype Call =
    Calloc bool
  | Realloc nat bool
  | PointerCheck bool
  | ErrorCheck VkResult
  | CreateDescriptorPool "(VkDescriptorType \<times> nat) list" nat VkResult
  | AllocateDescriptorSets handle handle VkResult
  | ResetDescriptorPool handle
  | LogMessage string
  | QueueWaitIdle handle
  | DeviceWaitIdle handle
  | WaitForFences handle
  | AcquireNextImageKHR handle handle "nat option"
  | ResetBoundPointers
  | CameraUpdateUBO nat nat
  | FlushUBOBuffer nat nat
  | ResetCommandBuffer handle
  | BeginCommandBuffer handle
  | CmdBeginRenderPass handle handle handle nat nat "(real \<times> real \<times> real \<times> real) option"
  | CmdEndRenderPass handle
  | EndCommandBuffer handle
  | ResetFences handle
  | QueueSubmit handle handle handle handle
  | QueuePresentKHR handle nat handle
  | TransitionImageLayout handle VkImageLayout VkImageLayout
  | PumpEvents
  | Destroy Subsystem
  | Create Subsystem

record World =
  descriptorPools :: "VkDescriptorPoolObject list"
  deviceMemory :: nat
  hostMemory :: nat
  calls :: "Call list"

definition emit :: "Call \<Rightarrow> World \<Rightarrow> World" where
  "emit c w = w\<lparr>calls := calls w @ [c]\<rparr>"

text \<open>
  A pool handle \<open>h\<close> denotes the object \<open>descriptorPools w ! (h - 1)\<close>; the null handle
  and a handle beyond the objects created so far denote nothing.
\<close>

definition livePool :: "World \<Rightarrow> handle \<Rightarrow> bool" where
  "livePool w h = (0 < h \<and> h \<le> length (descriptorPools w))"

definition poolObject :: "World \<Rightarrow> handle \<Rightarrow> VkDescriptorPoolObject" where
  "poolObject w h = descriptorPools w ! (h - 1)"

definition validSet :: "World \<Rightarrow> VkDescriptorSet \<Rightarrow> bool" where
  "validSet w s =
     (case s of
        NullSet \<Rightarrow> False
      | DescriptorSet p k \<Rightarrow> livePool w p \<and> k < setsAllocated (poolObject w p))"

text \<open>
  \<^verbatim>\<open>calloc\<close> of one object and \<^verbatim>\<open>realloc\<close> of a block of handles to \<open>n\<close> elements. Each
  takes one unit of host memory and is refused when none is left. The elements that
  \<^verbatim>\<open>realloc\<close> adds are indeterminate in C; the model fills them with the null handle.
\<close>

definition calloc :: "World \<Rightarrow> bool \<times> World" where
  "calloc w =
     (if hostMemory w = 0 then (False, emit (Calloc False) w)
      else (True, emit (Calloc True) (w\<lparr>hostMemory := hostMemory w - 1\<rparr>)))"

definition realloc :: "World \<Rightarrow> handle list \<Rightarrow> nat \<Rightarrow> handle list option \<times> World" where
  "realloc w xs n =
     (if hostMemory w = 0 then (None, emit (Realloc n False) w)
      else (Some (take n xs @ replicate (n - length xs) VK_NULL_HANDLE),
            emit (Realloc n True) (w\<lparr>hostMemory := hostMemory w - 1\<rparr>)))"

text \<open>
  \<^verbatim>\<open>vk2dPointerCheck\<close> and \<^verbatim>\<open>vk2dErrorCheck\<close> (\<^verbatim>\<open>VK2D/Validation.h\<close>) report and
  return; the report is a call of the log.
\<close>

definition vk2dPointerCheck :: "World \<Rightarrow> bool \<Rightarrow> bool \<times> World" where
  "vk2dPointerCheck w nonNull = (nonNull, emit (PointerCheck nonNull) w)"

definition vk2dErrorCheck :: "World \<Rightarrow> VkResult \<Rightarrow> World" where
  "vk2dErrorCheck w res = emit (ErrorCheck res) w"

text \<open>
  The driver. A pool is created while device memory is left and takes one unit of it.
  A set is allocated from a live pool that has handed out fewer than \<open>maxSets\<close> sets
  since its last reset; a full pool answers \<^verbatim>\<open>VK_ERROR_OUT_OF_POOL_MEMORY\<close>, and a
  device without memory answers \<^verbatim>\<open>VK_ERROR_OUT_OF_DEVICE_MEMORY\<close>. On every failure the
  set written back is the null handle.
\<close>

definition vkCreateDescriptorPool ::
  "World \<Rightarrow> (VkDescriptorType \<times> nat) list \<Rightarrow> nat \<Rightarrow> VkResult \<times> handle option \<times> World" where
  "vkCreateDescriptorPool w sizes n =
     (if deviceMemory w = 0
      then (VK_ERROR_OUT_OF_DEVICE_MEMORY, None,
            emit (CreateDescriptorPool sizes n VK_ERROR_OUT_OF_DEVICE_MEMORY) w)
      else (VK_SUCCESS, Some (Suc (length (descriptorPools w))),
            emit (CreateDescriptorPool sizes n VK_SUCCESS)
              (w\<lparr>descriptorPools := descriptorPools w @
                    [\<lparr>maxSets = n, poolSizes = sizes, setsAllocated = 0\<rparr>],
                  deviceMemory := deviceMemory w - 1\<rparr>)))"

definition vkAllocateDescriptorSets ::
  "World \<Rightarrow> handle \<Rightarrow> handle \<Rightarrow> fault + VkResult \<times> VkDescriptorSet \<times> World" where
  "vkAllocateDescriptorSets w lay pool =
     (if \<not> livePool w pool then Inl InvalidHandle
      else if maxSets (poolObject w pool) \<le> setsAllocated (poolObject w pool)
      then Inr (VK_ERROR_OUT_OF_POOL_MEMORY, NullSet,
                emit (AllocateDescriptorSets lay pool VK_ERROR_OUT_OF_POOL_MEMORY) w)
      else if deviceMemory w = 0
      then Inr (VK_ERROR_OUT_OF_DEVICE_MEMORY, NullSet,
                emit (AllocateDescriptorSets lay pool VK_ERROR_OUT_OF_DEVICE_MEMORY) w)
      else Inr (VK_SUCCESS, DescriptorSet pool (setsAllocated (poolObject w pool)),
                emit (AllocateDescriptorSets lay pool VK_SUCCESS)
                  (w\<lparr>descriptorPools := (descriptorPools w)
                        [pool - 1 := (poolObject w pool)
                           \<lparr>setsAllocated := Suc (setsAllocated (poolObject w pool))\<rparr>]\<rparr>)))"

definition vkResetDescriptorPool :: "World \<Rightarrow> handle \<Rightarrow> fault + World" where
  "vkResetDescriptorPool w pool =
     (if \<not> livePool w pool then Inl InvalidHandle
      else Inr (emit (ResetDescriptorPool pool)
                  (w\<lparr>descriptorPools := (descriptorPools w)
                        [pool - 1 := (poolObject w pool)\<lparr>setsAllocated := 0\<rparr>]\<rparr>)))"

subsection \<open>DescriptorControl.c\<close>

record VK2DDescCon =
  layout :: handle
  buffer :: "32 word"
  sampler :: "32 word"
  storageBuffer :: "32 word"
  dev :: handle
  pools :: "handle list"
  poolListSize :: nat
  poolsInUse :: nat

text \<open>
  The array \<^verbatim>\<open>sizes\<close> of \<^verbatim>\<open>_vk2dDescConAppendList\<close> has two elements and is filled
  from index 0, one entry per enabled kind; \<open>putSize\<close> is the write of the next entry,
  which is outside the array once two entries are there.
\<close>

definition putSize ::
  "Constants \<Rightarrow> VkDescriptorType \<Rightarrow> (VkDescriptorType \<times> nat) list \<Rightarrow>
     fault + (VkDescriptorType \<times> nat) list" where
  "putSize K t sizes =
     (if length sizes < 2
      then Inr (sizes @ [(t, VK2D_DEFAULT_DESCRIPTOR_POOL_ALLOCATION K)])
      else Inl OutOfBounds)"

definition fillSizes :: "Constants \<Rightarrow> VK2DDescCon \<Rightarrow> fault + (VkDescriptorType \<times> nat) list" where
  "fillSizes K d =
     (case (if buffer d \<noteq> VK2D_NO_LOCATION K
            then putSize K VK_DESCRIPTOR_TYPE_UNIFORM_BUFFER [] else Inr []) of
        Inl e \<Rightarrow> Inl e
      | Inr s1 \<Rightarrow>
          (case (if sampler d \<noteq> VK2D_NO_LOCATION K
                 then putSize K VK_DESCRIPTOR_TYPE_SAMPLED_IMAGE s1 else Inr s1) of
             Inl e \<Rightarrow> Inl e
           | Inr s2 \<Rightarrow>
               (if storageBuffer d \<noteq> VK2D_NO_LOCATION K
                then putSize K VK_DESCRIPTOR_TYPE_STORAGE_BUFFER s2 else Inr s2)))"

text \<open>
  \<^verbatim>\<open>_vk2dDescConAppendList\<close>. The list grows when it is full; when \<^verbatim>\<open>realloc\<close> is
  refused the source reports it and goes on. The array \<^verbatim>\<open>sizes\<close> is filled next. Then
  the pool is created into \<^verbatim>\<open>pools[poolsInUse]\<close> whether or not that element exists:
  the driver is handed the address of that element, which must be valid, and outside
  the block it is a fault.
  The result of \<^verbatim>\<open>vkCreateDescriptorPool\<close> is reported and otherwise ignored, and
  \<^verbatim>\<open>poolsInUse\<close> is incremented in every case.
\<close>

definition growList :: "Constants \<Rightarrow> World \<Rightarrow> VK2DDescCon \<Rightarrow> World \<times> VK2DDescCon" where
  "growList K w d =
     (if poolListSize d = poolsInUse d then
        (case realloc w (pools d) (poolListSize d + VK2D_DEFAULT_ARRAY_EXTENSION K) of
           (newList, w1) \<Rightarrow>
             (case vk2dPointerCheck w1 (newList \<noteq> None) of
                (ok, w2) \<Rightarrow>
                  if ok
                  then (w2, d\<lparr>poolListSize := poolListSize d + VK2D_DEFAULT_ARRAY_EXTENSION K,
                              pools := the newList\<rparr>)
                  else (w2, d)))
      else (w, d))"

definition vk2dDescConAppendList ::
  "Constants \<Rightarrow> World \<Rightarrow> VK2DDescCon \<Rightarrow> fault + World \<times> VK2DDescCon" where
  "vk2dDescConAppendList K w d =
     (case growList K w d of
        (w1, d1) \<Rightarrow>
          (case fillSizes K d1 of
             Inl e \<Rightarrow> Inl e
           | Inr sizes \<Rightarrow>
               if length (pools d1) \<le> poolsInUse d1 then Inl OutOfBounds
               else
                 (case vkCreateDescriptorPool w1 sizes
                         (VK2D_DEFAULT_DESCRIPTOR_POOL_ALLOCATION K) of
                    (res, created, w2) \<Rightarrow>
                      Inr (vk2dErrorCheck w2 res,
                           d1\<lparr>pools := (case created of
                                          None \<Rightarrow> pools d1
                                        | Some h \<Rightarrow> (pools d1)[poolsInUse d1 := h]),
                              poolsInUse := poolsInUse d1 + 1\<rparr>))))"

text \<open>
  \<^verbatim>\<open>_vk2dDescConGetAvailableSet\<close>. \<open>loopBody\<close> is one pass through the body of the
  \<^verbatim>\<open>while\<close>; its first component says whether the pass left the loop by \<^verbatim>\<open>break\<close>.
\<close>

definition loopBody ::
  "Constants \<Rightarrow> World \<Rightarrow> VK2DDescCon \<Rightarrow> nat \<Rightarrow>
     fault + bool \<times> VkDescriptorSet \<times> World \<times> VK2DDescCon \<times> nat" where
  "loopBody K w d i =
     (if length (pools d) \<le> i then Inl OutOfBounds
      else
        (case vkAllocateDescriptorSets w (layout d) (pools d ! i) of
           Inl e \<Rightarrow> Inl e
         | Inr (res, s, w1) \<Rightarrow>
             if res \<noteq> VK_ERROR_OUT_OF_POOL_MEMORY \<and> res \<noteq> VK_SUCCESS
             then Inr (True, s, vk2dErrorCheck w1 res, d, i)
             else
               (let s1 = (if res = VK_ERROR_OUT_OF_POOL_MEMORY then NullSet else s);
                    i1 = i + 1
                in if i1 = poolsInUse d \<and> s1 = NullSet
                   then (case vk2dDescConAppendList K w1 d of
                           Inl e \<Rightarrow> Inl e
                         | Inr (w2, d2) \<Rightarrow> Inr (False, s1, w2, d2, i1))
                   else Inr (False, s1, w1, d, i1))))"

text \<open>
  The loop runs one more pass only after a pass that did not \<^verbatim>\<open>break\<close>. Such a pass
  either takes host memory (the list grew) or moves \<open>i\<close> nearer to the end of the list.
\<close>

lemma growList_measure:
  "growList K w d = (w1, d1) \<Longrightarrow>
     hostMemory w1 < hostMemory w \<or>
     (hostMemory w1 = hostMemory w \<and> pools d1 = pools d \<and> poolListSize d1 = poolListSize d)"
  by (auto simp: growList_def realloc_def vk2dPointerCheck_def emit_def
      split: if_splits prod.splits)

lemma appendList_measure:
  "vk2dDescConAppendList K w d = Inr (w2, d2) \<Longrightarrow>
     hostMemory w2 < hostMemory w \<or>
     (hostMemory w2 = hostMemory w \<and> length (pools d2) = length (pools d))"
  by (auto simp: vk2dDescConAppendList_def vkCreateDescriptorPool_def vk2dErrorCheck_def emit_def
      split: prod.splits if_splits option.splits sum.splits dest!: growList_measure)

lemma allocate_hostMemory:
  "vkAllocateDescriptorSets w l p = Inr (res, s, w1) \<Longrightarrow> hostMemory w1 = hostMemory w"
  by (auto simp: vkAllocateDescriptorSets_def emit_def split: if_splits)

lemma loopBody_measure:
  "loopBody K w d i = Inr (False, s1, w1, d1, i1) \<Longrightarrow>
     hostMemory w1 < hostMemory w \<or>
     (hostMemory w1 = hostMemory w \<and> length (pools d1) - i1 < length (pools d) - i)"
  by (auto simp: loopBody_def Let_def vk2dErrorCheck_def emit_def
      split: if_splits sum.splits prod.splits
      dest!: appendList_measure allocate_hostMemory)

function getAvailableSetLoop ::
  "Constants \<Rightarrow> World \<Rightarrow> VK2DDescCon \<Rightarrow> nat \<Rightarrow> VkDescriptorSet \<Rightarrow>
     fault + VkDescriptorSet \<times> World \<times> VK2DDescCon" where
  "getAvailableSetLoop K w d i s =
     (if s \<noteq> NullSet then Inr (s, w, d)
      else
        (case loopBody K w d i of
           Inl e \<Rightarrow> Inl e
         | Inr (brk, s1, w1, d1, i1) \<Rightarrow>
             if brk then Inr (s1, w1, d1) else getAvailableSetLoop K w1 d1 i1 s1))"
  by pat_completeness auto
termination
proof (relation "measures [\<lambda>(K, w, d, i, s). if s = NullSet then 1 else 0,
                           \<lambda>(K, w, d, i, s). hostMemory w,
                           \<lambda>(K, w, d, i, s). length (pools d) - i]")
  show "wf (measures [\<lambda>(K, w, d, i, s). if s = NullSet then 1 else 0,
                      \<lambda>(K, w, d, i, s). hostMemory w,
                      \<lambda>(K, w, d, i, s). length (pools d) - i])"
    by simp
next
  fix K w d i s x2 brk y s1 ya w1 yb d1 i1
  assume "\<not> s \<noteq> NullSet" "loopBody K w d i = Inr x2" "(brk, y) = x2" "(s1, ya) = y"
    "(w1, yb) = ya" "(d1, i1) = yb" "\<not> brk"
  then have "loopBody K w d i = Inr (False, s1, w1, d1, i1)"
    by auto
  from loopBody_measure[OF this] \<open>\<not> s \<noteq> NullSet\<close>
  show "((K, w1, d1, i1, s1), K, w, d, i, s) \<in>
          measures [\<lambda>(K, w, d, i, s). if s = NullSet then 1 else 0,
                    \<lambda>(K, w, d, i, s). hostMemory w,
                    \<lambda>(K, w, d, i, s). length (pools d) - i]"
    by auto
qed

declare getAvailableSetLoop.simps [simp del]

text \<open>
  The functions take the controller by pointer; \<open>None\<close> is the null pointer, whose
  dereference is a fault.
\<close>

definition vk2dDescConGetAvailableSet ::
  "Constants \<Rightarrow> World \<Rightarrow> VK2DDescCon option \<Rightarrow>
     fault + VkDescriptorSet \<times> World \<times> VK2DDescCon" where
  "vk2dDescConGetAvailableSet K w descCon =
     (case descCon of
        None \<Rightarrow> Inl NullDereference
      | Some d \<Rightarrow> getAvailableSetLoop K w d 0 NullSet)"

definition vk2dDescConGetSet ::
  "Constants \<Rightarrow> World \<Rightarrow> VK2DDescCon option \<Rightarrow>
     fault + VkDescriptorSet \<times> World \<times> VK2DDescCon" where
  "vk2dDescConGetSet K w descCon = vk2dDescConGetAvailableSet K w descCon"

definition vk2dDescConCreate ::
  "Constants \<Rightarrow> World \<Rightarrow> handle \<Rightarrow> handle \<Rightarrow> 32 word \<Rightarrow> 32 word \<Rightarrow> 32 word \<Rightarrow>
     fault + World \<times> VK2DDescCon option" where
  "vk2dDescConCreate K w dv lay buf samp sbuf =
     (case calloc w of
        (got, w1) \<Rightarrow>
          (case vk2dPointerCheck w1 got of
             (ok, w2) \<Rightarrow>
               if ok then
                 (case vk2dDescConAppendList K w2
                         \<lparr>layout = lay, buffer = buf, sampler = samp, storageBuffer = sbuf,
                          dev = dv, pools = [], poolListSize = 0, poolsInUse = 0\<rparr> of
                    Inl e \<Rightarrow> Inl e
                  | Inr (w3, d) \<Rightarrow> Inr (w3, Some d))
               else Inr (w2, None)))"

function resetLoop :: "World \<Rightarrow> VK2DDescCon \<Rightarrow> nat \<Rightarrow> fault + World" where
  "resetLoop w d i =
     (if i < poolsInUse d then
        (if length (pools d) \<le> i then Inl OutOfBounds
         else
           (case vkResetDescriptorPool w (pools d ! i) of
              Inl e \<Rightarrow> Inl e
            | Inr w1 \<Rightarrow> resetLoop w1 d (i + 1)))
      else Inr w)"
  by pat_completeness auto
termination
  by (relation "measure (\<lambda>(w, d, i). poolsInUse d - i)") auto

declare resetLoop.simps [simp del]

definition vk2dDescConReset ::
  "World \<Rightarrow> VK2DDescCon option \<Rightarrow> fault + World \<times> VK2DDescCon" where
  "vk2dDescConReset w descCon =
     (case descCon of
        None \<Rightarrow> Inl NullDereference
      | Some d \<Rightarrow>
          (case resetLoop w d 0 of
             Inl e \<Rightarrow> Inl e
           | Inr w1 \<Rightarrow> Inr (w1, d)))"


text \<open>
  The states a controller goes through: created, then any number of \<^verbatim>\<open>getSet\<close> and
  \<^verbatim>\<open>reset\<close> calls that return, with the memory left to the process changing freely in
  between.
\<close>

inductive reachable :: "Constants \<Rightarrow> World \<times> VK2DDescCon \<Rightarrow> bool" for K :: Constants where
  created: "vk2dDescConCreate K w dv lay buf samp sbuf = Inr (w', Some d) \<Longrightarrow> reachable K (w', d)"
| gotSet: "reachable K (w, d) \<Longrightarrow> vk2dDescConGetSet K w (Some d) = Inr (s, w', d') \<Longrightarrow>
     reachable K (w', d')"
| resetDone: "reachable K (w, d) \<Longrightarrow> vk2dDescConReset w (Some d) = Inr (w', d') \<Longrightarrow>
     reachable K (w', d')"
| memoryChanged: "reachable K (w, d) \<Longrightarrow>
     reachable K (w\<lparr>deviceMemory := m, hostMemory := h\<rparr>, d)"

text \<open>
  A controller in good order: at least one pool is in use, the pools in use fit the
  list, and they are distinct live pools of the default capacity.
\<close>

definition exhausted :: "World \<Rightarrow> handle \<Rightarrow> bool" where
  "exhausted w p = (maxSets (poolObject w p) \<le> setsAllocated (poolObject w p))"

definition healthy :: "Constants \<Rightarrow> World \<Rightarrow> VK2DDescCon \<Rightarrow> bool" where
  "healthy K w d =
     (0 < poolsInUse d \<and> poolsInUse d \<le> poolListSize d \<and> poolListSize d = length (pools d) \<and>
      distinct (take (poolsInUse d) (pools d)) \<and>
      list_all (\<lambda>p. livePool w p \<and>
                  maxSets (poolObject w p) = VK2D_DEFAULT_DESCRIPTOR_POOL_ALLOCATION K)
        (take (poolsInUse d) (pools d)))"

subsection \<open>Vocabulary of the statements about the controller\<close>


definition emits :: "Call list \<Rightarrow> World \<Rightarrow> World" where
  "emits cs w = w\<lparr>calls := calls w @ cs\<rparr>"

definition took :: "handle \<Rightarrow> handle \<Rightarrow> World \<Rightarrow> World" where
  "took lay p w =
     emit (AllocateDescriptorSets lay p VK_SUCCESS)
       (w\<lparr>descriptorPools := (descriptorPools w)
             [p - 1 := (poolObject w p)\<lparr>setsAllocated := Suc (setsAllocated (poolObject w p))\<rparr>]\<rparr>)"


text \<open>The world after the pools \<open>ps\<close> have been reset, one call each.\<close>

definition wasReset :: "handle list \<Rightarrow> World \<Rightarrow> World" where
  "wasReset ps w =
     w\<lparr>descriptorPools := map (\<lambda>k. if Suc k \<in> set ps
                                   then (descriptorPools w ! k)\<lparr>setsAllocated := 0\<rparr>
                                   else descriptorPools w ! k) [0..<length (descriptorPools w)],
       calls := calls w @ map ResetDescriptorPool ps\<rparr>"


text \<open>A concrete controller: pools of two sets, a list that grows by two.\<close>

definition exampleK :: Constants where
  "exampleK = \<lparr>VK2D_DEFAULT_ARRAY_EXTENSION = 2, VK2D_DEFAULT_DESCRIPTOR_POOL_ALLOCATION = 2,
     VK2D_NO_LOCATION = 4294967295, VK2D_MAX_FRAMES_IN_FLIGHT = 2, VK2D_DEVICE_COMMAND_POOLS = 2,
     VK2D_MAX_CAMERAS = 2, VK2D_DEFAULT_CAMERA = 0, VK2D_INVALID_CAMERA = 3,
     VK2D_TARGET_SCREEN = 0, cs_Normal = 0, bm_None = 0, msaa_1x = 1\<rparr>"

definition exampleWorld :: World where
  "exampleWorld = \<lparr>descriptorPools = [], deviceMemory = 10, hostMemory = 10, calls = []\<rparr>"

definition exampleCon :: VK2DDescCon where
  "exampleCon = \<lparr>layout = 7, buffer = 0, sampler = 4294967295, storageBuffer = 4294967295,
     dev = 1, pools = [1, 0], poolListSize = 2, poolsInUse = 1\<rparr>"

definition createdCalls :: "Call list" where
  "createdCalls = [Calloc True, PointerCheck True, Realloc 2 True, PointerCheck True,
     CreateDescriptorPool [(VK_DESCRIPTOR_TYPE_UNIFORM_BUFFER, 2)] 2 VK_SUCCESS,
     ErrorCheck VK_SUCCESS]"

definition createdWorld :: World where
  "createdWorld = \<lparr>descriptorPools =
       [\<lparr>maxSets = 2, poolSizes = [(VK_DESCRIPTOR_TYPE_UNIFORM_BUFFER, 2)], setsAllocated = 0\<rparr>],
     deviceMemory = 9, hostMemory = 8, calls = createdCalls\<rparr>"

definition fullWorld :: World where
  "fullWorld = \<lparr>descriptorPools =
       [\<lparr>maxSets = 2, poolSizes = [(VK_DESCRIPTOR_TYPE_UNIFORM_BUFFER, 2)], setsAllocated = 2\<rparr>],
     deviceMemory = 9, hostMemory = 8,
     calls = createdCalls @
       [AllocateDescriptorSets 7 1 VK_SUCCESS, AllocateDescriptorSets 7 1 VK_SUCCESS]\<rparr>"

definition grownWorld :: World where
  "grownWorld = \<lparr>descriptorPools =
       [\<lparr>maxSets = 2, poolSizes = [(VK_DESCRIPTOR_TYPE_UNIFORM_BUFFER, 2)], setsAllocated = 2\<rparr>,
        \<lparr>maxSets = 2, poolSizes = [(VK_DESCRIPTOR_TYPE_UNIFORM_BUFFER, 2)], setsAllocated = 1\<rparr>],
     deviceMemory = 8, hostMemory = 8,
     calls = createdCalls @
       [AllocateDescriptorSets 7 1 VK_SUCCESS, AllocateDescriptorSets 7 1 VK_SUCCESS,
        AllocateDescriptorSets 7 1 VK_ERROR_OUT_OF_POOL_MEMORY,
        CreateDescriptorPool [(VK_DESCRIPTOR_TYPE_UNIFORM_BUFFER, 2)] 2 VK_SUCCESS,
        ErrorCheck VK_SUCCESS, AllocateDescriptorSets 7 2 VK_SUCCESS]\<rparr>"

definition grownCon :: VK2DDescCon where
  "grownCon = exampleCon\<lparr>pools := [1, 2], poolsInUse := 2\<rparr>"

text \<open>
  The same controller after a fourth set, with both pools and the list full, at a
  moment when the host has no memory left; and a controller that enables all three
  kinds of resource.
\<close>

definition bothFullWorld :: World where
  "bothFullWorld = \<lparr>descriptorPools =
       [\<lparr>maxSets = 2, poolSizes = [(VK_DESCRIPTOR_TYPE_UNIFORM_BUFFER, 2)], setsAllocated = 2\<rparr>,
        \<lparr>maxSets = 2, poolSizes = [(VK_DESCRIPTOR_TYPE_UNIFORM_BUFFER, 2)], setsAllocated = 2\<rparr>],
     deviceMemory = 8, hostMemory = 8,
     calls = calls grownWorld @
       [AllocateDescriptorSets 7 1 VK_ERROR_OUT_OF_POOL_MEMORY,
        AllocateDescriptorSets 7 2 VK_SUCCESS]\<rparr>"

definition starvedWorld :: World where
  "starvedWorld = bothFullWorld\<lparr>deviceMemory := 8, hostMemory := 0\<rparr>"

definition threeKindCon :: VK2DDescCon where
  "threeKindCon = exampleCon\<lparr>sampler := 1, storageBuffer := 2\<rparr>"

subsection \<open>Renderer.c: the renderer structure\<close>

text \<open>
  \<^verbatim>\<open>struct VK2DRenderer\<close> and the structures it holds are declared in headers that are
  not among the sources; the records have the members that the embedded functions
  use; the members of a camera specification that they do not name are \<open>otherMembers\<close>,
  by position. Enumerations that the source compares, casts or zero-initialises are
  natural numbers; \<^verbatim>\<open>float\<close> and \<^verbatim>\<open>double\<close> members are real numbers (no claim depends on
  rounding). Arrays whose allocation is among the sources are lists, read with a
  bounds check; \<^verbatim>\<open>commandBuffer\<close> and the per-camera arrays, which only the later file
  uses and nothing among the sources allocates, are functions of the index.
\<close>

type_synonym vec4 = "real \<times> real \<times> real \<times> real"

record VK2DRendererConfig =
  msaa :: nat
  screenMode :: nat
  filterMode :: nat

definition VK_PRESENT_MODE_FIFO_KHR :: nat where
  "VK_PRESENT_MODE_FIFO_KHR = 2"

definition UINT32_MAX :: nat where
  "UINT32_MAX = 4294967295"

record VK2DCameraSpec =
  xOnScreen :: real
  yOnScreen :: real
  wOnScreen :: real
  hOnScreen :: real
  otherMembers :: "nat \<Rightarrow> real"

record VK2DCamera =
  spec :: VK2DCameraSpec
  camState :: nat
  ubos :: "nat \<Rightarrow> VK2DCameraSpec"
  uboSets :: "nat \<Rightarrow> handle"

record VK2DLogicalDevice =
  ld_dev :: handle
  ld_queue :: handle

record VK2DPhysicalDevice =
  pd_maxMSAA :: nat

record VkViewport =
  viewport_x :: real
  viewport_y :: real
  viewport_width :: real
  viewport_height :: real
  viewport_minDepth :: real
  viewport_maxDepth :: real

record VkSurfaceCapabilitiesKHR =
  currentExtent_width :: nat
  currentExtent_height :: nat
  minImageCount :: nat

record VK2DImage =
  img_img :: handle
  img_width :: nat
  img_height :: nat
  img_set :: handle

record VK2DTexture =
  tex_fbo :: handle
  tex_img :: "VK2DImage option"
  tex_uboSet :: handle

record VK2DShader =
  sh_pipe :: handle
  sh_sets :: "handle list"
  sh_currentUniform :: nat
  sh_uniformSize :: nat

record VK2DRenderer =
  ld :: "VK2DLogicalDevice option"
  pd :: "VK2DPhysicalDevice option"
  window :: handle
  config :: VK2DRendererConfig
  newConfig :: VK2DRendererConfig
  resetSwapchain :: bool
  procedStartFrame :: bool
  currentFrame :: nat
  scImageIndex :: nat
  swapchain :: handle
  swapchainImageCount :: nat
  swapchainImages :: "handle list"
  framebuffers :: "handle list"
  inFlightFences :: "handle list"
  imageAvailableSemaphores :: "handle list"
  renderFinishedSemaphores :: "handle list"
  imagesInFlight :: "handle list"
  commandBuffer :: "nat \<Rightarrow> handle"
  renderPass :: handle
  midFrameSwapRenderPass :: handle
  externalTargetRenderPass :: handle
  msaaImage :: handle
  targetFrameBuffer :: handle
  targetRenderPass :: handle
  targetSubPass :: nat
  targetImage :: handle
  targetUBOSet :: handle
  target :: nat
  cameras :: "VK2DCamera list"
  defaultCameraSpec :: VK2DCameraSpec
  cameraLocked :: nat
  enableTextureCameraUBO :: bool
  colourBlend :: vec4
  blendMode :: nat
  viewport :: VkViewport
  surfaceWidth :: nat
  surfaceHeight :: nat
  surfaceCapabilities :: VkSurfaceCapabilitiesKHR
  presentModes :: "nat list"
  presentModeCount :: nat
  previousTime :: nat
  accumulatedTime :: real
  amountOfFrames :: real
  frameTimeAverage :: real
  unitUBOSet :: handle
  samplerSet :: handle
  primFillPipe :: handle
  primLinePipe :: handle
  texPipe :: handle
  unitSquare :: "nat option"
  unitSquareOutline :: "nat option"
  unitCircle :: "nat option"
  unitCircleOutline :: "nat option"
  unitLine :: "nat option"

text \<open>
  The program state: the world, the singleton \<^verbatim>\<open>gRenderer\<close> (\<open>None\<close> is \<^verbatim>\<open>NULL\<close>), the
  texture objects by address, and the next handle the driver will give to a new
  object.
\<close>

record Program =
  world :: World
  gRenderer :: "VK2DRenderer option"
  textures :: "nat \<Rightarrow> VK2DTexture option"
  nextHandle :: nat

text \<open>What the world answers during one call.\<close>

record Env =
  performanceCounter :: nat
  performanceFrequency :: nat
  acquiredImage :: "nat option"
  beginCommandBufferResult :: VkResult
  endCommandBufferResult :: VkResult
  queueSubmitResult :: VkResult
  presentResult :: VkResult
  queuePresentResult :: VkResult
  windowMinimized :: "bool list"
  drawableSize :: "nat \<times> nat"
  newSwapchainImages :: "handle list"

text \<open>
  The procedures \<^verbatim>\<open>_vk2dRendererDraw\<close> and \<^verbatim>\<open>_vk2dRendererDrawRaw\<close> that record a draw
  are defined in a file that is not among the sources, as is the macro
  \<^verbatim>\<open>VK2D_UNIT_GENERATION\<close>; \<^verbatim>\<open>atan2f\<close> is the C library's. They are parameters of the
  drawing functions. A draw is handed the array of descriptor sets (an element that
  the caller never wrote is \<open>None\<close>), the number of sets, the polygon (\<open>None\<close> is
  \<^verbatim>\<open>NULL\<close>), the pipeline and twelve numbers, in the order of the call.
\<close>

record DrawArgs =
  da_sets :: "handle option list"
  da_setCount :: nat
  da_poly :: "nat option"
  da_pipe :: handle
  da_floats :: "real list"

record Internals =
  VK2D_UNIT_GENERATION :: bool
  vk2dRendererDraw :: "DrawArgs \<Rightarrow> Program \<Rightarrow> fault + Program"
  vk2dRendererDrawRaw :: "DrawArgs \<Rightarrow> nat \<Rightarrow> Program \<Rightarrow> fault + Program"
  atan2f :: "real \<Rightarrow> real \<Rightarrow> real"

definition bindF :: "fault + 'a \<Rightarrow> ('a \<Rightarrow> fault + 'b) \<Rightarrow> fault + 'b" where
  "bindF m f = (case m of Inl e \<Rightarrow> Inl e | Inr x \<Rightarrow> f x)"

definition nthE :: "'a list \<Rightarrow> nat \<Rightarrow> fault + 'a" where
  "nthE xs i = (if i < length xs then Inr (xs ! i) else Inl OutOfBounds)"

definition derefE :: "'a option \<Rightarrow> fault + 'a" where
  "derefE x = (case x of None \<Rightarrow> Inl NullDereference | Some v \<Rightarrow> Inr v)"

definition say :: "Call \<Rightarrow> Program \<Rightarrow> Program" where
  "say c p = p\<lparr>world := emit c (world p)\<rparr>"

definition notInitialized :: "Program \<Rightarrow> Program" where
  "notInitialized p = say (LogMessage ''Renderer is not initialized'') p"

definition zeroConfig :: VK2DRendererConfig where
  "zeroConfig = \<lparr>msaa = 0, screenMode = 0, filterMode = 0\<rparr>"

definition zeroCameraSpec :: VK2DCameraSpec where
  "zeroCameraSpec =
     \<lparr>xOnScreen = 0, yOnScreen = 0, wOnScreen = 0, hOnScreen = 0, otherMembers = (\<lambda>i. 0)\<rparr>"

text \<open>
  Modelled from the spec: \<^verbatim>\<open>vk2dPhysicalDeviceGetMSAA\<close> is defined in
  \<^verbatim>\<open>VK2D/PhysicalDevice.c\<close>, which is not among the sources; the spec lists the
  maximum multisample level among the capability queries of the physical device.
\<close>

definition vk2dPhysicalDeviceGetMSAA :: "VK2DPhysicalDevice option \<Rightarrow> fault + nat" where
  "vk2dPhysicalDeviceGetMSAA physDev = bindF (derefE physDev) (\<lambda>d. Inr (pd_maxMSAA d))"

subsection \<open>Renderer.c, earlier file: the swapchain rebuild\<close>

text \<open>
  \<^verbatim>\<open>_vk2dRendererResetSwapchain\<close> and the procedures it calls work on the renderer
  structure, the world and the handle supply. Each destroy or create procedure is one
  call of the log, together with its writes to the members that the frame functions
  read; the Vulkan structures it fills in are left out, and host allocation inside
  these procedures is taken to succeed.
\<close>

type_synonym rstate = "VK2DRenderer \<times> World \<times> nat"

definition fresh :: "nat \<Rightarrow> nat \<Rightarrow> handle list" where
  "fresh h n = [h ..< h + n]"

text \<open>
  The loop that hangs while the window is minimized reads the window flags once
  before the loop and once per pass; the list holds the successive readings, and a
  list that ends while the window is still minimized stands for a window that is
  never restored.
\<close>

fun hangWhileMinimized :: "bool list \<Rightarrow> World \<Rightarrow> fault + World" where
  "hangWhileMinimized [] w = Inl Hang"
| "hangWhileMinimized (minimized # readings) w =
     (if minimized then hangWhileMinimized readings (emit PumpEvents w) else Inr w)"

function getPresentModeLoop :: "VK2DRenderer \<Rightarrow> nat \<Rightarrow> nat \<Rightarrow> fault + nat" where
  "getPresentModeLoop r mode i =
     (if i < presentModeCount r then
        (case nthE (presentModes r) i of
           Inl e \<Rightarrow> Inl e
         | Inr m \<Rightarrow> if m = mode then Inr mode else getPresentModeLoop r mode (i + 1))
      else Inr VK_PRESENT_MODE_FIFO_KHR)"
  by pat_completeness auto
termination
  by (relation "measure (\<lambda>(r, mode, i). presentModeCount r - i)") auto

declare getPresentModeLoop.simps [simp del]

definition vk2dRendererGetPresentMode :: "VK2DRenderer \<Rightarrow> nat \<Rightarrow> fault + nat" where
  "vk2dRendererGetPresentMode r mode = getPresentModeLoop r mode 0"

definition vk2dRendererGetSurfaceSize :: "Env \<Rightarrow> VK2DRenderer \<Rightarrow> VK2DRenderer" where
  "vk2dRendererGetSurfaceSize e r =
     (if currentExtent_width (surfaceCapabilities r) = UINT32_MAX \<or>
         currentExtent_height (surfaceCapabilities r) = UINT32_MAX
      then r\<lparr>surfaceWidth := fst (drawableSize e), surfaceHeight := snd (drawableSize e)\<rparr>
      else r\<lparr>surfaceWidth := currentExtent_width (surfaceCapabilities r),
             surfaceHeight := currentExtent_height (surfaceCapabilities r)\<rparr>)"

definition destroyAll :: "World \<Rightarrow> World" where
  "destroyAll w =
     foldl (\<lambda>v s. emit (Destroy s) v) w
       [Synchronization, Sampler, DescriptorPool, UniformBuffers, FrameBuffer, Pipelines,
        RenderPass, DepthStencilImage, ColourResources, Swapchain]"

definition vk2dRendererCreateSwapchain :: "Env \<Rightarrow> rstate \<Rightarrow> fault + rstate" where
  "vk2dRendererCreateSwapchain e s =
     (case s of (r, w, h) \<Rightarrow>
        bindF (vk2dRendererGetPresentMode r (screenMode (config r))) (\<lambda>mode.
          Inr (r\<lparr>config := (config r)\<lparr>screenMode := mode\<rparr>,
                 swapchain := h,
                 swapchainImageCount := length (newSwapchainImages e),
                 swapchainImages := newSwapchainImages e\<rparr>,
               emit (Create Swapchain) w, h + 1)))"

definition vk2dRendererCreateColourResources :: "Constants \<Rightarrow> rstate \<Rightarrow> rstate" where
  "vk2dRendererCreateColourResources K s =
     (case s of (r, w, h) \<Rightarrow>
        if msaa (config r) \<noteq> msaa_1x K
        then (r\<lparr>msaaImage := h\<rparr>, emit (Create ColourResources) w, h + 1)
        else (r, emit (LogMessage ''Colour resources not enabled...'') w, h))"

definition vk2dRendererCreateRenderPass :: "rstate \<Rightarrow> rstate" where
  "vk2dRendererCreateRenderPass s =
     (case s of (r, w, h) \<Rightarrow>
        (r\<lparr>renderPass := h, midFrameSwapRenderPass := h + 1, externalTargetRenderPass := h + 2\<rparr>,
         emit (Create RenderPass) w, h + 3))"

definition vk2dRendererCreateFrameBuffer :: "rstate \<Rightarrow> rstate" where
  "vk2dRendererCreateFrameBuffer s =
     (case s of (r, w, h) \<Rightarrow>
        (r\<lparr>framebuffers := fresh h (swapchainImageCount r)\<rparr>,
         emit (Create FrameBuffer) w, h + swapchainImageCount r))"

definition vk2dRendererCreateSynchronization :: "Constants \<Rightarrow> rstate \<Rightarrow> rstate" where
  "vk2dRendererCreateSynchronization K s =
     (case s of (r, w, h) \<Rightarrow>
        (r\<lparr>imageAvailableSemaphores := fresh h (VK2D_MAX_FRAMES_IN_FLIGHT K),
           renderFinishedSemaphores :=
             fresh (h + VK2D_MAX_FRAMES_IN_FLIGHT K) (VK2D_MAX_FRAMES_IN_FLIGHT K),
           inFlightFences :=
             fresh (h + 2 * VK2D_MAX_FRAMES_IN_FLIGHT K) (VK2D_MAX_FRAMES_IN_FLIGHT K),
           imagesInFlight := replicate (swapchainImageCount r) VK_NULL_HANDLE\<rparr>,
         emit (Create Synchronization) w, h + 3 * VK2D_MAX_FRAMES_IN_FLIGHT K))"

definition logOnly :: "Subsystem \<Rightarrow> rstate \<Rightarrow> rstate" where
  "logOnly x s = (case s of (r, w, h) \<Rightarrow> (r, emit (Create x) w, h))"

definition createAfterSwapchain :: "Constants \<Rightarrow> rstate \<Rightarrow> rstate" where
  "createAfterSwapchain K =
     vk2dRendererCreateSynchronization K \<circ> logOnly Sampler \<circ> logOnly DescriptorPool \<circ>
     logOnly UniformBuffers \<circ> vk2dRendererCreateFrameBuffer \<circ> logOnly Pipelines \<circ>
     vk2dRendererCreateRenderPass \<circ> logOnly DepthStencilImage \<circ>
     vk2dRendererCreateColourResources K"

definition vk2dRendererResetSwapchain_internal ::
  "Constants \<Rightarrow> Env \<Rightarrow> rstate \<Rightarrow> fault + rstate" where
  "vk2dRendererResetSwapchain_internal K e s =
     (case s of (r, w, h) \<Rightarrow>
        bindF (hangWhileMinimized (windowMinimized e) w) (\<lambda>w1.
        bindF (derefE (ld r)) (\<lambda>l.
        bindF (vk2dRendererCreateSwapchain e
                 (vk2dRendererGetSurfaceSize e
                    (r\<lparr>msaaImage := VK_NULL_HANDLE, config := newConfig r\<rparr>),
                  destroyAll (emit (DeviceWaitIdle (ld_dev l)) w1), h)) (\<lambda>s1.
          Inr (createAfterSwapchain K s1)))))"

subsection \<open>Renderer.c, later file: the user-visible functions\<close>

definition vk2dRendererWait :: "Program \<Rightarrow> fault + Program" where
  "vk2dRendererWait p =
     (case gRenderer p of
        Some r \<Rightarrow> bindF (derefE (ld r)) (\<lambda>l. Inr (say (QueueWaitIdle (ld_queue l)) p))
      | None \<Rightarrow> Inr (notInitialized p))"

definition vk2dRendererGetPointer :: "Program \<Rightarrow> VK2DRenderer option \<times> Program" where
  "vk2dRendererGetPointer p = (gRenderer p, p)"

definition vk2dRendererResetSwapchain :: "Program \<Rightarrow> Program" where
  "vk2dRendererResetSwapchain p =
     (case gRenderer p of
        Some r \<Rightarrow> p\<lparr>gRenderer := Some (r\<lparr>resetSwapchain := True\<rparr>)\<rparr>
      | None \<Rightarrow> notInitialized p)"

definition vk2dRendererGetConfig :: "Program \<Rightarrow> VK2DRendererConfig \<times> Program" where
  "vk2dRendererGetConfig p =
     (case gRenderer p of
        Some r \<Rightarrow> (config r, p)
      | None \<Rightarrow> (zeroConfig, notInitialized p))"

definition vk2dRendererSetConfig :: "VK2DRendererConfig \<Rightarrow> Program \<Rightarrow> fault + Program" where
  "vk2dRendererSetConfig cfg p =
     (case gRenderer p of
        Some r \<Rightarrow>
          bindF (vk2dPhysicalDeviceGetMSAA (pd r)) (\<lambda>maxMSAA.
            Inr (vk2dRendererResetSwapchain
                   (p\<lparr>gRenderer := Some (r\<lparr>newConfig :=
                         cfg\<lparr>msaa := (if maxMSAA \<ge> msaa cfg then msaa cfg else maxMSAA)\<rparr>\<rparr>)\<rparr>)))
      | None \<Rightarrow> Inr (notInitialized p))"

text \<open>
  The first statements of \<^verbatim>\<open>vk2dRendererStartFrame\<close> after the guard (the same in
  both files): wait for the fence of the current frame slot, acquire an image, wait
  for the fence recorded as the last user of that image when there is one, record
  the slot's fence as its user. The return values of \<^verbatim>\<open>vkWaitForFences\<close> and
  \<^verbatim>\<open>vkAcquireNextImageKHR\<close> are not looked at; an acquisition that fails leaves
  \<^verbatim>\<open>scImageIndex\<close> as it was.
\<close>

definition waitAndAcquire :: "Env \<Rightarrow> VK2DRenderer \<Rightarrow> World \<Rightarrow> fault + VK2DRenderer \<times> World" where
  "waitAndAcquire e r w =
     bindF (derefE (ld r)) (\<lambda>l.
     bindF (nthE (inFlightFences r) (currentFrame r)) (\<lambda>fence.
     bindF (nthE (imageAvailableSemaphores r) (currentFrame r)) (\<lambda>available.
       (let w1 = emit (AcquireNextImageKHR (swapchain r) available (acquiredImage e))
                   (emit (WaitForFences fence) w);
            idx = (case acquiredImage e of Some i \<Rightarrow> i | None \<Rightarrow> scImageIndex r)
        in bindF (nthE (imagesInFlight r) idx) (\<lambda>user.
             Inr (r\<lparr>scImageIndex := idx, imagesInFlight := (imagesInFlight r)[idx := fence]\<rparr>,
                  if user \<noteq> VK_NULL_HANDLE then emit (WaitForFences user) w1 else w1))))))"

function flushCameras ::
  "Constants \<Rightarrow> nat \<Rightarrow> nat \<Rightarrow> VK2DCamera list \<Rightarrow> World \<Rightarrow> fault + VK2DCamera list \<times> World" where
  "flushCameras K idx i cams w =
     (if i < VK2D_MAX_CAMERAS K then
        (case nthE cams i of
           Inl e \<Rightarrow> Inl e
         | Inr c \<Rightarrow>
             if camState c = cs_Normal K
             then flushCameras K idx (i + 1) (cams[i := c\<lparr>ubos := (ubos c)(idx := spec c)\<rparr>])
                    (emit (FlushUBOBuffer idx i) (emit (CameraUpdateUBO i idx) w))
             else flushCameras K idx (i + 1) cams w)
      else Inr (cams, w))"
  by pat_completeness auto
termination
  by (relation "measure (\<lambda>(K, idx, i, cams, w). VK2D_MAX_CAMERAS K - i)") auto

declare flushCameras.simps [simp del]

definition vk2dRendererStartFrame :: "Constants \<Rightarrow> Env \<Rightarrow> vec4 \<Rightarrow> Program \<Rightarrow> fault + Program" where
  "vk2dRendererStartFrame K e clearColour p =
     (case gRenderer p of
        None \<Rightarrow> Inr (notInitialized p)
      | Some r \<Rightarrow>
          if procedStartFrame r then Inr p
          else
            bindF (waitAndAcquire e
                     (r\<lparr>procedStartFrame := True, previousTime := performanceCounter e\<rparr>)
                     (world p)) (\<lambda>(r1, w1).
            bindF (nthE (framebuffers r1) (scImageIndex r1)) (\<lambda>fb.
            bindF (nthE (swapchainImages r1) (scImageIndex r1)) (\<lambda>im.
            bindF (nthE (cameras r1) 0) (\<lambda>cam0.
            bindF (flushCameras K (scImageIndex r1) 0 (cameras r1)
                     (emit ResetBoundPointers w1)) (\<lambda>(cams, w2).
              (let cb = commandBuffer r1 (scImageIndex r1);
                   r2 = r1\<lparr>targetFrameBuffer := fb, targetRenderPass := renderPass r1,
                           targetSubPass := 0, targetImage := im,
                           targetUBOSet := uboSets cam0 (scImageIndex r1),
                           target := VK2D_TARGET_SCREEN K, cameras := cams\<rparr>;
                   w3 = emit (CmdBeginRenderPass cb (renderPass r1) fb (surfaceWidth r1)
                                (surfaceHeight r1) (Some clearColour))
                          (vk2dErrorCheck
                             (emit (BeginCommandBuffer cb) (emit (ResetCommandBuffer cb) w2))
                             (beginCommandBufferResult e))
               in Inr (p\<lparr>world := w3, gRenderer := Some r2\<rparr>))))))))"

definition rebuildNeeded :: "Env \<Rightarrow> VK2DRenderer \<Rightarrow> bool" where
  "rebuildNeeded e r =
     (presentResult e = VK_ERROR_OUT_OF_DATE_KHR \<or> presentResult e = VK_SUBOPTIMAL_KHR \<or>
      resetSwapchain r \<or> queuePresentResult e = VK_ERROR_OUT_OF_DATE_KHR)"

definition accountTime :: "Env \<Rightarrow> VK2DRenderer \<Rightarrow> VK2DRenderer" where
  "accountTime e r =
     (let acc = accumulatedTime r +
                  ((real (performanceCounter e) - real (previousTime r)) /
                     real (performanceFrequency e)) * 1000;
          frames = amountOfFrames r + 1
      in if acc \<ge> 1000
         then r\<lparr>frameTimeAverage := acc / frames, accumulatedTime := 0, amountOfFrames := 0\<rparr>
         else r\<lparr>accumulatedTime := acc, amountOfFrames := frames\<rparr>)"

definition vk2dRendererEndFrame :: "Constants \<Rightarrow> Env \<Rightarrow> Program \<Rightarrow> fault + Program" where
  "vk2dRendererEndFrame K e p =
     (case gRenderer p of
        None \<Rightarrow> Inr (notInitialized p)
      | Some r \<Rightarrow>
          if \<not> procedStartFrame r then Inr p
          else
            bindF (derefE (ld r)) (\<lambda>l.
            bindF (nthE (renderFinishedSemaphores r) (currentFrame r)) (\<lambda>finished.
            bindF (nthE (imageAvailableSemaphores r) (currentFrame r)) (\<lambda>available.
            bindF (nthE (inFlightFences r) (currentFrame r)) (\<lambda>fence.
              (let cb = commandBuffer r (scImageIndex r);
                   w1 = vk2dErrorCheck
                          (emit (EndCommandBuffer cb) (emit (CmdEndRenderPass cb) (world p)))
                          (endCommandBufferResult e);
                   w2 = vk2dErrorCheck
                          (emit (QueueSubmit cb available finished fence)
                             (emit (ResetFences fence) w1))
                          (queueSubmitResult e);
                   w3 = emit (QueuePresentKHR (swapchain r) (scImageIndex r) finished) w2;
                   r3 = r\<lparr>procedStartFrame := False\<rparr>
               in bindF (if rebuildNeeded e r3
                         then bindF (vk2dRendererResetSwapchain_internal K e (r3, w3, nextHandle p))
                                (\<lambda>(r4, w4, h4). Inr (r4\<lparr>resetSwapchain := False\<rparr>, w4, h4))
                         else Inr (r3,
                                   vk2dErrorCheck (vk2dErrorCheck w3 (presentResult e))
                                     (queuePresentResult e),
                                   nextHandle p)) (\<lambda>(r5, w5, h5).
                    if VK2D_MAX_FRAMES_IN_FLIGHT K = 0 then Inl DivisionByZero
                    else Inr (p\<lparr>world := w5,
                                gRenderer := Some (accountTime e
                                   (r5\<lparr>currentFrame :=
                                         (currentFrame r5 + 1) mod VK2D_MAX_FRAMES_IN_FLIGHT K\<rparr>)),
                                nextHandle := h5\<rparr>))))))))"

definition vk2dRendererGetDevice :: "Program \<Rightarrow> VK2DLogicalDevice option \<times> Program" where
  "vk2dRendererGetDevice p =
     (case gRenderer p of
        Some r \<Rightarrow> (ld r, p)
      | None \<Rightarrow> (None, notInitialized p))"

definition vk2dRendererSetTarget :: "Constants \<Rightarrow> nat \<Rightarrow> Program \<Rightarrow> fault + Program" where
  "vk2dRendererSetTarget K tgt p =
     (case gRenderer p of
        None \<Rightarrow> Inr (notInitialized p)
      | Some r \<Rightarrow>
          if tgt \<noteq> target r then
            bindF (if tgt = VK2D_TARGET_SCREEN K
                   then bindF (nthE (framebuffers r) (scImageIndex r)) (\<lambda>fb.
                        bindF (nthE (swapchainImages r) (scImageIndex r)) (\<lambda>im.
                        bindF (nthE (cameras r) 0) (\<lambda>cam0.
                          Inr (midFrameSwapRenderPass r, fb, im,
                               uboSets cam0 (scImageIndex r),
                               TransitionImageLayout (targetImage r)
                                 VK_IMAGE_LAYOUT_COLOR_ATTACHMENT_OPTIMAL
                                 VK_IMAGE_LAYOUT_SHADER_READ_ONLY_OPTIMAL,
                               surfaceWidth r, surfaceHeight r))))
                   else bindF (derefE (textures p tgt)) (\<lambda>t.
                        bindF (derefE (tex_img t)) (\<lambda>im.
                          Inr (externalTargetRenderPass r, tex_fbo t, img_img im, tex_uboSet t,
                               TransitionImageLayout (img_img im)
                                 VK_IMAGE_LAYOUT_SHADER_READ_ONLY_OPTIMAL
                                 VK_IMAGE_LAYOUT_COLOR_ATTACHMENT_OPTIMAL,
                               img_width im, img_height im))))
              (\<lambda>(pass, fb, im, uboSet, transition, width, height).
                 (let cb = commandBuffer r (scImageIndex r)
                  in Inr (p\<lparr>world :=
                               emit ResetBoundPointers
                                 (emit (CmdBeginRenderPass cb pass fb width height None)
                                    (emit transition (emit (CmdEndRenderPass cb) (world p)))),
                             gRenderer := Some (r\<lparr>target := tgt, targetRenderPass := pass,
                                                   targetFrameBuffer := fb, targetImage := im,
                                                   targetUBOSet := uboSet\<rparr>)\<rparr>)))
          else Inr p)"

definition vk2dRendererSetColourMod :: "vec4 \<Rightarrow> Program \<Rightarrow> Program" where
  "vk2dRendererSetColourMod colourMod p =
     (case gRenderer p of
        Some r \<Rightarrow> p\<lparr>gRenderer := Some (r\<lparr>colourBlend := colourMod\<rparr>)\<rparr>
      | None \<Rightarrow> notInitialized p)"

text \<open>
  Functions that write their result through pointers take the old contents of the
  destination and return the new contents.
\<close>

definition vk2dRendererGetColourMod :: "vec4 \<Rightarrow> Program \<Rightarrow> vec4 \<times> Program" where
  "vk2dRendererGetColourMod dst p =
     (case gRenderer p of
        Some r \<Rightarrow> (colourBlend r, p)
      | None \<Rightarrow> (dst, notInitialized p))"

definition vk2dRendererSetBlendMode :: "nat \<Rightarrow> Program \<Rightarrow> Program" where
  "vk2dRendererSetBlendMode mode p =
     (case gRenderer p of
        Some r \<Rightarrow> p\<lparr>gRenderer := Some (r\<lparr>blendMode := mode\<rparr>)\<rparr>
      | None \<Rightarrow> notInitialized p)"

definition vk2dRendererGetBlendMode :: "Constants \<Rightarrow> Program \<Rightarrow> nat \<times> Program" where
  "vk2dRendererGetBlendMode K p =
     (case gRenderer p of
        Some r \<Rightarrow> (blendMode r, p)
      | None \<Rightarrow> (bm_None K, notInitialized p))"

definition vk2dRendererSetCamera :: "Constants \<Rightarrow> VK2DCameraSpec \<Rightarrow> Program \<Rightarrow> fault + Program" where
  "vk2dRendererSetCamera K camera p =
     (case gRenderer p of
        Some r \<Rightarrow>
          bindF (nthE (cameras r) (VK2D_DEFAULT_CAMERA K)) (\<lambda>c.
            Inr (p\<lparr>gRenderer := Some (r\<lparr>cameras := (cameras r)
                      [VK2D_DEFAULT_CAMERA K :=
                         c\<lparr>spec := camera\<lparr>wOnScreen := real (surfaceWidth r),
                                           hOnScreen := real (surfaceHeight r),
                                           xOnScreen := 0, yOnScreen := 0\<rparr>\<rparr>]\<rparr>)\<rparr>))
      | None \<Rightarrow> Inr (notInitialized p))"

definition vk2dRendererGetCamera :: "Program \<Rightarrow> VK2DCameraSpec \<times> Program" where
  "vk2dRendererGetCamera p =
     (case gRenderer p of
        Some r \<Rightarrow> (defaultCameraSpec r, p)
      | None \<Rightarrow> (zeroCameraSpec, notInitialized p))"

definition vk2dRendererSetViewport :: "real \<Rightarrow> real \<Rightarrow> real \<Rightarrow> real \<Rightarrow> Program \<Rightarrow> Program" where
  "vk2dRendererSetViewport x y w h p =
     (case gRenderer p of
        Some r \<Rightarrow>
          p\<lparr>gRenderer := Some (r\<lparr>viewport := (viewport r)
                \<lparr>viewport_x := x, viewport_y := y, viewport_width := w, viewport_height := h\<rparr>\<rparr>)\<rparr>
      | None \<Rightarrow> notInitialized p)"

definition vk2dRendererGetViewport :: "vec4 \<Rightarrow> Program \<Rightarrow> vec4 \<times> Program" where
  "vk2dRendererGetViewport dst p =
     (case gRenderer p of
        Some r \<Rightarrow>
          ((viewport_x (viewport r), viewport_y (viewport r), viewport_width (viewport r),
            viewport_height (viewport r)), p)
      | None \<Rightarrow> (dst, notInitialized p))"

definition vk2dRendererSetTextureCamera :: "bool \<Rightarrow> Program \<Rightarrow> Program" where
  "vk2dRendererSetTextureCamera useCameraOnTextures p =
     (case gRenderer p of
        Some r \<Rightarrow> p\<lparr>gRenderer := Some (r\<lparr>enableTextureCameraUBO := useCameraOnTextures\<rparr>)\<rparr>
      | None \<Rightarrow> notInitialized p)"

definition vk2dRendererLockCameras :: "nat \<Rightarrow> Program \<Rightarrow> Program" where
  "vk2dRendererLockCameras cam p =
     (case gRenderer p of
        Some r \<Rightarrow> p\<lparr>gRenderer := Some (r\<lparr>cameraLocked := cam\<rparr>)\<rparr>
      | None \<Rightarrow> notInitialized p)"

definition vk2dRendererUnlockCameras :: "Constants \<Rightarrow> Program \<Rightarrow> Program" where
  "vk2dRendererUnlockCameras K p =
     (case gRenderer p of
        Some r \<Rightarrow> p\<lparr>gRenderer := Some (r\<lparr>cameraLocked := VK2D_INVALID_CAMERA K\<rparr>)\<rparr>
      | None \<Rightarrow> notInitialized p)"

definition vk2dRendererGetAverageFrameTime :: "Program \<Rightarrow> real \<times> Program" where
  "vk2dRendererGetAverageFrameTime p =
     (case gRenderer p of
        Some r \<Rightarrow> (frameTimeAverage r, p)
      | None \<Rightarrow> (0, notInitialized p))"

text \<open>
  The drawing functions. \<^verbatim>\<open>vk2dRendererDrawPolygon\<close> is defined last in the source
  and stands first here because the shapes call it.
\<close>

definition vk2dRendererClear :: "Internals \<Rightarrow> Constants \<Rightarrow> Program \<Rightarrow> fault + Program" where
  "vk2dRendererClear I K p =
     (case gRenderer p of
        Some r \<Rightarrow>
          vk2dRendererDrawRaw I
            \<lparr>da_sets = [Some (unitUBOSet r)], da_setCount = 1, da_poly = unitSquare r,
             da_pipe = primFillPipe r, da_floats = [0, 0, 1, 1, 0, 0, 0, 1, 0, 0, 0, 0]\<rparr>
            (VK2D_INVALID_CAMERA K) p
      | None \<Rightarrow> Inr (notInitialized p))"

definition vk2dRendererDrawPolygon ::
  "Internals \<Rightarrow> nat option \<Rightarrow> real \<Rightarrow> real \<Rightarrow> bool \<Rightarrow> real \<Rightarrow> real \<Rightarrow> real \<Rightarrow> real \<Rightarrow>
     real \<Rightarrow> real \<Rightarrow> Program \<Rightarrow> fault + Program" where
  "vk2dRendererDrawPolygon I polygon x y filled lineWidth xscale yscale rot originX originY p =
     (case gRenderer p of
        Some r \<Rightarrow>
          vk2dRendererDraw I
            \<lparr>da_sets = [None], da_setCount = 1, da_poly = polygon,
             da_pipe = (if filled then primFillPipe r else primLinePipe r),
             da_floats = [x, y, xscale, yscale, rot, originX, originY, lineWidth, 0, 0, 0, 0]\<rparr> p
      | None \<Rightarrow> Inr (notInitialized p))"

definition vk2dRendererDrawRectangle ::
  "Internals \<Rightarrow> real \<Rightarrow> real \<Rightarrow> real \<Rightarrow> real \<Rightarrow> real \<Rightarrow> real \<Rightarrow> real \<Rightarrow> Program \<Rightarrow>
     fault + Program" where
  "vk2dRendererDrawRectangle I x y w h rot ox oy p =
     (case gRenderer p of
        Some r \<Rightarrow>
          if VK2D_UNIT_GENERATION I
          then vk2dRendererDrawPolygon I (unitSquare r) x y True 1 w h rot (ox / w) (oy / h) p
          else Inr p
      | None \<Rightarrow> Inr (notInitialized p))"

definition vk2dRendererDrawRectangleOutline ::
  "Internals \<Rightarrow> real \<Rightarrow> real \<Rightarrow> real \<Rightarrow> real \<Rightarrow> real \<Rightarrow> real \<Rightarrow> real \<Rightarrow> real \<Rightarrow> Program \<Rightarrow>
     fault + Program" where
  "vk2dRendererDrawRectangleOutline I x y w h rot ox oy lineWidth p =
     (case gRenderer p of
        Some r \<Rightarrow>
          if VK2D_UNIT_GENERATION I
          then vk2dRendererDrawPolygon I (unitSquareOutline r) x y False lineWidth w h rot
                 (ox / w) (oy / h) p
          else Inr p
      | None \<Rightarrow> Inr (notInitialized p))"

definition vk2dRendererDrawCircle ::
  "Internals \<Rightarrow> real \<Rightarrow> real \<Rightarrow> real \<Rightarrow> Program \<Rightarrow> fault + Program" where
  "vk2dRendererDrawCircle I x y rad p =
     (case gRenderer p of
        Some r \<Rightarrow>
          if VK2D_UNIT_GENERATION I
          then vk2dRendererDrawPolygon I (unitCircle r) x y True 1 (rad * 2) (rad * 2) 0 0 0 p
          else Inr p
      | None \<Rightarrow> Inr (notInitialized p))"

definition vk2dRendererDrawCircleOutline ::
  "Internals \<Rightarrow> real \<Rightarrow> real \<Rightarrow> real \<Rightarrow> real \<Rightarrow> Program \<Rightarrow> fault + Program" where
  "vk2dRendererDrawCircleOutline I x y rad lineWidth p =
     (case gRenderer p of
        Some r \<Rightarrow>
          if VK2D_UNIT_GENERATION I
          then vk2dRendererDrawPolygon I (unitCircleOutline r) x y False lineWidth
                 (rad * 2) (rad * 2) 0 0 0 p
          else Inr p
      | None \<Rightarrow> Inr (notInitialized p))"

definition vk2dRendererDrawLine ::
  "Internals \<Rightarrow> real \<Rightarrow> real \<Rightarrow> real \<Rightarrow> real \<Rightarrow> Program \<Rightarrow> fault + Program" where
  "vk2dRendererDrawLine I x1 y1 x2 y2 p =
     (case gRenderer p of
        Some r \<Rightarrow>
          if VK2D_UNIT_GENERATION I
          then (let x = sqrt ((y2 - y1)\<^sup>2 + (x2 - x1)\<^sup>2);
                    rot = atan2f I (y2 - y1) (x2 - x1)
                in vk2dRendererDrawPolygon I (unitLine r) x1 y1 False 1 x 1 rot 0 0 p)
          else Inr p
      | None \<Rightarrow> Inr (notInitialized p))"

definition vk2dRendererDrawShader ::
  "Internals \<Rightarrow> VK2DShader option \<Rightarrow> nat \<Rightarrow> real \<Rightarrow> real \<Rightarrow> real \<Rightarrow> real \<Rightarrow> real \<Rightarrow>
     real \<Rightarrow> real \<Rightarrow> real \<Rightarrow> real \<Rightarrow> real \<Rightarrow> real \<Rightarrow> Program \<Rightarrow> fault + Program" where
  "vk2dRendererDrawShader I shader tex x y xscale yscale rot originX originY
       xInTex yInTex texWidth texHeight p =
     (case gRenderer p of
        Some r \<Rightarrow>
          bindF (derefE (textures p tex)) (\<lambda>t.
          bindF (derefE (tex_img t)) (\<lambda>im.
          bindF (derefE shader) (\<lambda>sh.
          bindF (nthE (sh_sets sh) (sh_currentUniform sh)) (\<lambda>uniformSet.
            vk2dRendererDraw I
              \<lparr>da_sets = [None, Some (samplerSet r), Some (img_set im), Some uniformSet],
               da_setCount = (if sh_uniformSize sh = 0 then 3 else 4), da_poly = None,
               da_pipe = sh_pipe sh,
               da_floats = [x, y, xscale, yscale, rot, originX, originY, 1,
                            xInTex, yInTex, texWidth, texHeight]\<rparr> p))))
      | None \<Rightarrow> Inr (notInitialized p))"

definition vk2dRendererDrawTexture ::
  "Internals \<Rightarrow> nat \<Rightarrow> real \<Rightarrow> real \<Rightarrow> real \<Rightarrow> real \<Rightarrow> real \<Rightarrow>
     real \<Rightarrow> real \<Rightarrow> real \<Rightarrow> real \<Rightarrow> real \<Rightarrow> real \<Rightarrow> Program \<Rightarrow> fault + Program" where
  "vk2dRendererDrawTexture I tex x y xscale yscale rot originX originY
       xInTex yInTex texWidth texHeight p =
     (case gRenderer p of
        Some r \<Rightarrow>
          bindF (derefE (textures p tex)) (\<lambda>t.
          bindF (derefE (tex_img t)) (\<lambda>im.
            vk2dRendererDraw I
              \<lparr>da_sets = [None, Some (samplerSet r), Some (img_set im)], da_setCount = 3,
               da_poly = None, da_pipe = texPipe r,
               da_floats = [x, y, xscale, yscale, rot, originX, originY, 1,
                            xInTex, yInTex, texWidth, texHeight]\<rparr> p))
      | None \<Rightarrow> Inr (notInitialized p))"

text \<open>
  \<^verbatim>\<open>vk2dRendererQuit\<close> tears everything down when the singleton is set, and does
  nothing, without a message, when it is null.
\<close>

definition vk2dRendererQuit :: "Program \<Rightarrow> fault + Program" where
  "vk2dRendererQuit p =
     (case gRenderer p of
        Some r \<Rightarrow>
          bindF (derefE (ld r)) (\<lambda>l.
            Inr (p\<lparr>world :=
                     emit (LogMessage ''VK2D has been uninitialized.'')
                       (foldl (\<lambda>v s. emit (Destroy s) v) (emit (QueueWaitIdle (ld_queue l)) (world p))
                          [Synchronization, TargetsList, Units, Sampler, DescriptorPool,
                           UniformBuffers, FrameBuffer, Pipelines, DescriptorSetLayout, RenderPass,
                           ColourResources, Swapchain, WindowSurface, Debug, Allocator,
                           LogicalDevice, PhysicalDevice]),
                   gRenderer := None\<rparr>))
      | None \<Rightarrow> Inr p)"

subsection \<open>Renderer.c, earlier file: the unguarded user-visible functions\<close>

definition vk2dRendererWait_A :: "Program \<Rightarrow> fault + Program" where
  "vk2dRendererWait_A p =
     bindF (derefE (gRenderer p)) (\<lambda>r.
     bindF (derefE (ld r)) (\<lambda>l. Inr (say (QueueWaitIdle (ld_queue l)) p)))"

definition vk2dRendererResetSwapchain_A :: "Program \<Rightarrow> fault + Program" where
  "vk2dRendererResetSwapchain_A p =
     bindF (derefE (gRenderer p)) (\<lambda>r. Inr (p\<lparr>gRenderer := Some (r\<lparr>resetSwapchain := True\<rparr>)\<rparr>))"

definition vk2dRendererGetConfig_A :: "Program \<Rightarrow> fault + VK2DRendererConfig \<times> Program" where
  "vk2dRendererGetConfig_A p = bindF (derefE (gRenderer p)) (\<lambda>r. Inr (config r, p))"

definition vk2dRendererSetConfig_A :: "VK2DRendererConfig \<Rightarrow> Program \<Rightarrow> fault + Program" where
  "vk2dRendererSetConfig_A cfg p =
     bindF (derefE (gRenderer p)) (\<lambda>r.
       vk2dRendererResetSwapchain_A (p\<lparr>gRenderer := Some (r\<lparr>newConfig := cfg\<rparr>)\<rparr>))"

definition vk2dRendererGetDevice_A :: "Program \<Rightarrow> fault + VK2DLogicalDevice option \<times> Program" where
  "vk2dRendererGetDevice_A p = bindF (derefE (gRenderer p)) (\<lambda>r. Inr (ld r, p))"

subsection \<open>Vocabulary of the statements about the renderer\<close>

text \<open>The calls that a function added to the log of \<open>p\<close>; none when it faulted.\<close>

definition emitted :: "Program \<Rightarrow> fault + Program \<Rightarrow> Call list" where
  "emitted p res =
     (case res of
        Inl e \<Rightarrow> []
      | Inr p' \<Rightarrow> drop (length (calls (world p))) (calls (world p')))"

fun transitionedImages :: "Call list \<Rightarrow> handle list" where
  "transitionedImages [] = []"
| "transitionedImages (TransitionImageLayout im fromLayout toLayout # cs) = im # transitionedImages cs"
| "transitionedImages (c # cs) = transitionedImages cs"

fun isTransition :: "Call \<Rightarrow> bool" where
  "isTransition (TransitionImageLayout im fromLayout toLayout) = True"
| "isTransition c = False"

fun isCameraCall :: "Call \<Rightarrow> bool" where
  "isCameraCall (CameraUpdateUBO i idx) = True"
| "isCameraCall (FlushUBOBuffer idx i) = True"
| "isCameraCall c = False"

text \<open>
  The members that the frame functions index are allocated for the frame slots, for
  the swapchain images, for the cameras and for the present modes, and the ring index
  is below the number of frame slots.
\<close>

definition wellFormed :: "Constants \<Rightarrow> VK2DRenderer \<Rightarrow> bool" where
  "wellFormed K r =
     (ld r \<noteq> None \<and>
      currentFrame r < VK2D_MAX_FRAMES_IN_FLIGHT K \<and>
      length (inFlightFences r) = VK2D_MAX_FRAMES_IN_FLIGHT K \<and>
      length (imageAvailableSemaphores r) = VK2D_MAX_FRAMES_IN_FLIGHT K \<and>
      length (renderFinishedSemaphores r) = VK2D_MAX_FRAMES_IN_FLIGHT K \<and>
      length (imagesInFlight r) = swapchainImageCount r \<and>
      length (framebuffers r) = swapchainImageCount r \<and>
      length (swapchainImages r) = swapchainImageCount r \<and>
      0 < VK2D_MAX_CAMERAS K \<and>
      length (cameras r) = VK2D_MAX_CAMERAS K \<and>
      presentModeCount r \<le> length (presentModes r))"

text \<open>
  The states of the frame state machine: a well-formed renderer with no active frame,
  then any sequence of \<^verbatim>\<open>vk2dRendererStartFrame\<close> and \<^verbatim>\<open>vk2dRendererEndFrame\<close> calls
  that return, where the driver acquires an image of the current swapchain.
\<close>

inductive frameReachable :: "Constants \<Rightarrow> Program \<Rightarrow> bool" for K :: Constants where
  idle: "gRenderer p = Some r \<Longrightarrow> wellFormed K r \<Longrightarrow> \<not> procedStartFrame r \<Longrightarrow>
     frameReachable K p"
| started: "frameReachable K p \<Longrightarrow> gRenderer p = Some r \<Longrightarrow> acquiredImage e = Some i \<Longrightarrow>
     i < swapchainImageCount r \<Longrightarrow> vk2dRendererStartFrame K e clearColour p = Inr p' \<Longrightarrow>
     frameReachable K p'"
| ended: "frameReachable K p \<Longrightarrow> vk2dRendererEndFrame K e p = Inr p' \<Longrightarrow>
     frameReachable K p'"

text \<open>
  The calls of the parts of a frame: the synchronisation that opens
  \<^verbatim>\<open>vk2dRendererStartFrame\<close>, the start of the recording that closes it, the submission
  and presentation of \<^verbatim>\<open>vk2dRendererEndFrame\<close>, and the swapchain rebuild.
\<close>

definition syncCalls :: "VK2DRenderer \<Rightarrow> nat \<Rightarrow> Call list" where
  "syncCalls r i =
     [WaitForFences (inFlightFences r ! currentFrame r),
      AcquireNextImageKHR (swapchain r) (imageAvailableSemaphores r ! currentFrame r) (Some i)] @
     (if imagesInFlight r ! i \<noteq> VK_NULL_HANDLE then [WaitForFences (imagesInFlight r ! i)] else [])"

definition recordingCalls :: "Env \<Rightarrow> vec4 \<Rightarrow> VK2DRenderer \<Rightarrow> nat \<Rightarrow> Call list" where
  "recordingCalls e clearColour r i =
     [ResetCommandBuffer (commandBuffer r i), BeginCommandBuffer (commandBuffer r i),
      ErrorCheck (beginCommandBufferResult e),
      CmdBeginRenderPass (commandBuffer r i) (renderPass r) (framebuffers r ! i)
        (surfaceWidth r) (surfaceHeight r) (Some clearColour)]"

definition rebuildCalls :: "Constants \<Rightarrow> VK2DRenderer \<Rightarrow> Call list" where
  "rebuildCalls K r =
     DeviceWaitIdle (ld_dev (the (ld r))) #
     map Destroy [Synchronization, Sampler, DescriptorPool, UniformBuffers, FrameBuffer, Pipelines,
        RenderPass, DepthStencilImage, ColourResources, Swapchain] @
     [Create Swapchain,
      if msaa (newConfig r) \<noteq> msaa_1x K then Create ColourResources
      else LogMessage ''Colour resources not enabled...''] @
     map Create [DepthStencilImage, RenderPass, Pipelines, FrameBuffer, UniformBuffers,
        DescriptorPool, Sampler, Synchronization]"

definition presentCalls :: "Env \<Rightarrow> VK2DRenderer \<Rightarrow> Call list" where
  "presentCalls e r =
     [CmdEndRenderPass (commandBuffer r (scImageIndex r)),
      EndCommandBuffer (commandBuffer r (scImageIndex r)),
      ErrorCheck (endCommandBufferResult e),
      ResetFences (inFlightFences r ! currentFrame r),
      QueueSubmit (commandBuffer r (scImageIndex r))
        (imageAvailableSemaphores r ! currentFrame r)
        (renderFinishedSemaphores r ! currentFrame r)
        (inFlightFences r ! currentFrame r),
      ErrorCheck (queueSubmitResult e),
      QueuePresentKHR (swapchain r) (scImageIndex r) (renderFinishedSemaphores r ! currentFrame r)]"

text \<open>
  A concrete renderer: two frame slots, two swapchain images, no active frame; the
  same renderer in the middle of a frame that draws to the screen; two texture
  addresses that hold equal textures; and a program whose singleton is null.
\<close>

definition exampleCamera :: VK2DCamera where
  "exampleCamera = \<lparr>spec = zeroCameraSpec, camState = 0, ubos = (\<lambda>i. zeroCameraSpec),
     uboSets = (\<lambda>i. 80 + i)\<rparr>"

definition exampleRenderer :: VK2DRenderer where
  "exampleRenderer = \<lparr>
     ld = Some \<lparr>ld_dev = 1, ld_queue = 2\<rparr>,
     pd = Some \<lparr>pd_maxMSAA = 4\<rparr>,
     window = 3,
     config = \<lparr>msaa = 1, screenMode = 2, filterMode = 0\<rparr>,
     newConfig = \<lparr>msaa = 1, screenMode = 2, filterMode = 0\<rparr>,
     resetSwapchain = False,
     procedStartFrame = False,
     currentFrame = 0,
     scImageIndex = 0,
     swapchain = 10,
     swapchainImageCount = 3,
     swapchainImages = [11, 12, 13],
     framebuffers = [21, 22, 23],
     inFlightFences = [31, 32],
     imageAvailableSemaphores = [41, 42],
     renderFinishedSemaphores = [51, 52],
     imagesInFlight = [0, 32, 0],
     commandBuffer = (\<lambda>i. 60 + i),
     renderPass = 70,
     midFrameSwapRenderPass = 71,
     externalTargetRenderPass = 72,
     msaaImage = 0,
     targetFrameBuffer = 0,
     targetRenderPass = 0,
     targetSubPass = 0,
     targetImage = 0,
     targetUBOSet = 0,
     target = 0,
     cameras = [exampleCamera, exampleCamera\<lparr>camState := 1\<rparr>],
     defaultCameraSpec = zeroCameraSpec,
     cameraLocked = 3,
     enableTextureCameraUBO = False,
     colourBlend = (1, 1, 1, 1),
     blendMode = 0,
     viewport = \<lparr>viewport_x = 0, viewport_y = 0, viewport_width = 800, viewport_height = 600,
                 viewport_minDepth = 0, viewport_maxDepth = 1\<rparr>,
     surfaceWidth = 800,
     surfaceHeight = 600,
     surfaceCapabilities = \<lparr>currentExtent_width = 800, currentExtent_height = 600,
                            minImageCount = 2\<rparr>,
     presentModes = [2, 0],
     presentModeCount = 2,
     previousTime = 0,
     accumulatedTime = 0,
     amountOfFrames = 0,
     frameTimeAverage = 0,
     unitUBOSet = 82,
     samplerSet = 83,
     primFillPipe = 84,
     primLinePipe = 85,
     texPipe = 86,
     unitSquare = Some 1,
     unitSquareOutline = Some 2,
     unitCircle = Some 3,
     unitCircleOutline = Some 4,
     unitLine = Some 5\<rparr>"

definition exampleTexture :: VK2DTexture where
  "exampleTexture = \<lparr>tex_fbo = 90,
     tex_img = Some \<lparr>img_img = 91, img_width = 64, img_height = 64, img_set = 93\<rparr>,
     tex_uboSet = 92\<rparr>"

definition exampleProgram :: Program where
  "exampleProgram = \<lparr>world = exampleWorld, gRenderer = Some exampleRenderer,
     textures = (\<lambda>a. if a = 5 \<or> a = 6 then Some exampleTexture else None),
     nextHandle = 100\<rparr>"

definition exampleEnv :: Env where
  "exampleEnv = \<lparr>performanceCounter = 0, performanceFrequency = 1000,
     acquiredImage = Some 1,
     beginCommandBufferResult = VK_SUCCESS, endCommandBufferResult = VK_SUCCESS,
     queueSubmitResult = VK_SUCCESS, presentResult = VK_SUCCESS,
     queuePresentResult = VK_SUCCESS, windowMinimized = [True, False],
     drawableSize = (640, 480), newSwapchainImages = [14, 15]\<rparr>"

definition activeRenderer :: VK2DRenderer where
  "activeRenderer = exampleRenderer\<lparr>procedStartFrame := True, scImageIndex := 1,
     targetFrameBuffer := 22, targetRenderPass := 70, targetImage := 12, targetUBOSet := 81,
     target := 0\<rparr>"

definition activeProgram :: Program where
  "activeProgram = exampleProgram\<lparr>gRenderer := Some activeRenderer\<rparr>"

definition exampleInternals :: Internals where
  "exampleInternals = \<lparr>VK2D_UNIT_GENERATION = True,
     vk2dRendererDraw = (\<lambda>a p. Inr (say (LogMessage ''draw'') p)),
     vk2dRendererDrawRaw = (\<lambda>a cam p. Inr (say (LogMessage ''draw raw'') p)),
     atan2f = (\<lambda>y x. 0)\<rparr>"

definition uninitializedProgram :: Program where
  "uninitializedProgram = exampleProgram\<lparr>gRenderer := None\<rparr>"

definition stagedConfig :: VK2DRendererConfig where
  "stagedConfig = \<lparr>msaa = 8, screenMode = 0, filterMode = 1\<rparr>"

definition unofferedConfig :: VK2DRendererConfig where
  "unofferedConfig = \<lparr>msaa = 2, screenMode = 1, filterMode = 0\<rparr>"

definition exampleSpec :: VK2DCameraSpec where
  "exampleSpec = \<lparr>xOnScreen = 10, yOnScreen = 20, wOnScreen = 30, hOnScreen = 40,
     otherMembers = (\<lambda>i. 1 + real i)\<rparr>"

subsection \<open>Lemmas about the controller\<close>

lemma emits_simps [simp]:
  "descriptorPools (emits cs w) = descriptorPools w"
  "deviceMemory (emits cs w) = deviceMemory w"
  "hostMemory (emits cs w) = hostMemory w"
  "calls (emits cs w) = calls w @ cs"
  "livePool (emits cs w) p = livePool w p"
  "poolObject (emits cs w) p = poolObject w p"
  "exhausted (emits cs w) p = exhausted w p"
  "emits [] w = w"
  "emits cs (emits bs w) = emits (bs @ cs) w"
  "emit c (emits bs w) = emits (bs @ [c]) w"
  by (simp_all add: emits_def emit_def livePool_def poolObject_def exhausted_def)








lemma took_simps [simp]:
  "deviceMemory (took lay p w) = deviceMemory w"
  "hostMemory (took lay p w) = hostMemory w"
  "calls (took lay p w) = calls w @ [AllocateDescriptorSets lay p VK_SUCCESS]"
  "livePool (took lay p w) q = livePool w q"
  "length (descriptorPools (took lay p w)) = length (descriptorPools w)"
  by (simp_all add: took_def emit_def livePool_def)


lemma validSet_emits [simp]: "validSet (emits cs w) t = validSet w t"
  by (cases t) (simp_all add: validSet_def)


lemma healthy_emits [simp]: "healthy K (emits cs w) d = healthy K w d"
  by (simp add: healthy_def)



lemma livePool_wasReset [simp]: "livePool (wasReset ps w) p = livePool w p"
  by (simp add: wasReset_def livePool_def)



lemma wasReset_simps [simp]:
  "deviceMemory (wasReset ps w) = deviceMemory w"
  "hostMemory (wasReset ps w) = hostMemory w"
  "calls (wasReset ps w) = calls w @ map ResetDescriptorPool ps"
  by (simp_all add: wasReset_def)







subsection \<open>The concrete controller\<close>

lemma example_created:
  "vk2dDescConCreate exampleK exampleWorld 1 7 0 4294967295 4294967295 =
     Inr (createdWorld, Some exampleCon)"
  by (simp add: vk2dDescConCreate_def calloc_def vk2dPointerCheck_def vk2dDescConAppendList_def
      growList_def realloc_def vkCreateDescriptorPool_def vk2dErrorCheck_def emit_def
      exampleK_def exampleWorld_def createdWorld_def createdCalls_def exampleCon_def
      fillSizes_def putSize_def VK_NULL_HANDLE_def)


lemma example_first:
  "vk2dDescConGetSet exampleK createdWorld (Some exampleCon) =
     Inr (DescriptorSet 1 0,
          createdWorld\<lparr>descriptorPools :=
              [\<lparr>maxSets = 2, poolSizes = [(VK_DESCRIPTOR_TYPE_UNIFORM_BUFFER, 2)],
                setsAllocated = 1\<rparr>],
            calls := createdCalls @ [AllocateDescriptorSets 7 1 VK_SUCCESS]\<rparr>, exampleCon)"
  by (simp add: vk2dDescConGetSet_def vk2dDescConGetAvailableSet_def getAvailableSetLoop.simps
      loopBody_def vkAllocateDescriptorSets_def livePool_def poolObject_def exampleCon_def
      createdWorld_def exampleK_def emit_def Let_def)

lemma example_second:
  "vk2dDescConGetSet exampleK
     (createdWorld\<lparr>descriptorPools :=
              [\<lparr>maxSets = 2, poolSizes = [(VK_DESCRIPTOR_TYPE_UNIFORM_BUFFER, 2)],
                setsAllocated = 1\<rparr>],
            calls := createdCalls @ [AllocateDescriptorSets 7 1 VK_SUCCESS]\<rparr>) (Some exampleCon) =
     Inr (DescriptorSet 1 1, fullWorld, exampleCon)"
  by (simp add: vk2dDescConGetSet_def vk2dDescConGetAvailableSet_def getAvailableSetLoop.simps
      loopBody_def vkAllocateDescriptorSets_def livePool_def poolObject_def exampleCon_def
      createdWorld_def fullWorld_def exampleK_def emit_def Let_def)

lemma example_third:
  "vk2dDescConGetSet exampleK fullWorld (Some exampleCon) =
     Inr (DescriptorSet 2 0, grownWorld, grownCon)"
  by (simp add: vk2dDescConGetSet_def vk2dDescConGetAvailableSet_def getAvailableSetLoop.simps
      loopBody_def vkAllocateDescriptorSets_def livePool_def poolObject_def exampleCon_def
      fullWorld_def grownWorld_def grownCon_def exampleK_def emit_def Let_def
      vk2dDescConAppendList_def growList_def realloc_def vkCreateDescriptorPool_def
      vk2dErrorCheck_def fillSizes_def putSize_def VK_NULL_HANDLE_def)

lemma example_reachable: "reachable exampleK (fullWorld, exampleCon)"
  by (rule reachable.gotSet[OF reachable.gotSet[OF reachable.created[OF example_created]
        example_first] example_second])

lemma example_fourth:
  "vk2dDescConGetSet exampleK grownWorld (Some grownCon) =
     Inr (DescriptorSet 2 1, bothFullWorld, grownCon)"
  by (simp add: vk2dDescConGetSet_def vk2dDescConGetAvailableSet_def getAvailableSetLoop.simps
      loopBody_def vkAllocateDescriptorSets_def livePool_def poolObject_def exampleCon_def
      grownWorld_def bothFullWorld_def grownCon_def exampleK_def emit_def Let_def)

lemma example_reachable_starved: "reachable exampleK (starvedWorld, grownCon)"
  unfolding starvedWorld_def
  by (rule reachable.memoryChanged[OF reachable.gotSet[OF reachable.gotSet[OF example_reachable
        example_third] example_fourth]])

subsection \<open>Lemmas about the renderer\<close>

lemma bindF_simps [simp]:
  "bindF (Inr x) f = f x"
  "bindF (Inl e) f = Inl e"
  by (simp_all add: bindF_def)

lemma bindF_eq_Inr:
  "bindF m f = Inr y \<longleftrightarrow> (\<exists>x. m = Inr x \<and> f x = Inr y)"
  by (cases m) simp_all

lemma nthE_in [simp]: "i < length xs \<Longrightarrow> nthE xs i = Inr (xs ! i)"
  by (simp add: nthE_def)

lemma nthE_eq_Inr: "nthE xs i = Inr x \<longleftrightarrow> i < length xs \<and> x = xs ! i"
  by (auto simp: nthE_def)

lemma derefE_simps [simp]: "derefE (Some v) = Inr v" "derefE None = Inl NullDereference"
  by (simp_all add: derefE_def)

lemma calls_emit [simp]: "calls (emit c w) = calls w @ [c]"
  by (simp add: emit_def)

lemma calls_errorCheck [simp]: "calls (vk2dErrorCheck w res) = calls w @ [ErrorCheck res]"
  by (simp add: vk2dErrorCheck_def)

lemma emit_as_emits: "emit c w = emits [c] w"
  by (simp add: emits_def emit_def)

lemma flushCameras_ok:
  "VK2D_MAX_CAMERAS K \<le> length cams \<Longrightarrow>
     \<exists>cams' cs. flushCameras K idx i cams w = Inr (cams', emits cs w) \<and>
       length cams' = length cams \<and> list_all isCameraCall cs"
proof (induction K idx i cams w rule: flushCameras.induct)
  case (1 K idx i cams w)
  show ?case
  proof (cases "i < VK2D_MAX_CAMERAS K")
    case False
    then have "flushCameras K idx i cams w = Inr (cams, emits [] w)"
      by (subst flushCameras.simps) simp
    moreover have "list_all isCameraCall []" by simp
    ultimately show ?thesis by blast
  next
    case True
    then have il: "i < length cams" using "1.prems" by simp
    then have n: "nthE cams i = Inr (cams ! i)" by simp
    show ?thesis
    proof (cases "camState (cams ! i) = cs_Normal K")
      case normal: True
      let ?cams = "cams[i := (cams ! i)\<lparr>ubos := (ubos (cams ! i))(idx := spec (cams ! i))\<rparr>]"
      let ?w = "emit (FlushUBOBuffer idx i) (emit (CameraUpdateUBO i idx) w)"
      from "1.IH"(1)[OF True n normal] "1.prems" obtain cams' cs where
        r: "flushCameras K idx (i + 1) ?cams ?w = Inr (cams', emits cs ?w)"
          "length cams' = length ?cams" "list_all isCameraCall cs"
        by auto
      have "flushCameras K idx i cams w = Inr (cams', emits ([CameraUpdateUBO i idx, FlushUBOBuffer idx i] @ cs) w)"
        using r(1) by (subst flushCameras.simps) (simp add: True n normal emit_as_emits)
      moreover have "list_all isCameraCall ([CameraUpdateUBO i idx, FlushUBOBuffer idx i] @ cs)"
        using r(3) by simp
      moreover have "length cams' = length cams" using r(2) by simp
      ultimately show ?thesis by blast
    next
      case other: False
      from "1.IH"(2)[OF True n other] "1.prems" obtain cams' cs where
        r: "flushCameras K idx (i + 1) cams w = Inr (cams', emits cs w)"
          "length cams' = length cams" "list_all isCameraCall cs"
        by auto
      have "flushCameras K idx i cams w = Inr (cams', emits cs w)"
        using r(1) by (subst flushCameras.simps) (simp add: True n other)
      then show ?thesis using r by blast
    qed
  qed
qed

lemma waitAndAcquire_ok:
  assumes "wellFormed K r" "acquiredImage e = Some i" "i < swapchainImageCount r"
  shows "waitAndAcquire e r w =
     Inr (r\<lparr>scImageIndex := i,
             imagesInFlight := (imagesInFlight r)[i := inFlightFences r ! currentFrame r]\<rparr>,
          emits ([WaitForFences (inFlightFences r ! currentFrame r),
                  AcquireNextImageKHR (swapchain r) (imageAvailableSemaphores r ! currentFrame r)
                    (Some i)] @
                 (if imagesInFlight r ! i \<noteq> VK_NULL_HANDLE
                  then [WaitForFences (imagesInFlight r ! i)] else [])) w)"
  using assms
  by (auto simp: waitAndAcquire_def wellFormed_def Let_def emit_as_emits)

lemma startFrame_ok:
  assumes g: "gRenderer p = Some r" and wf: "wellFormed K r" and idle: "\<not> procedStartFrame r"
    and acq: "acquiredImage e = Some i" "i < swapchainImageCount r"
  shows "\<exists>r' cs. vk2dRendererStartFrame K e clearColour p =
            Inr (p\<lparr>world := emits (syncCalls r i @ [ResetBoundPointers] @ cs @
                                    recordingCalls e clearColour r i) (world p),
                   gRenderer := Some r'\<rparr>) \<and>
          list_all isCameraCall cs \<and> wellFormed K r' \<and> procedStartFrame r' \<and>
          scImageIndex r' = i \<and>
          imagesInFlight r' = (imagesInFlight r)[i := inFlightFences r ! currentFrame r] \<and>
          inFlightFences r' = inFlightFences r \<and>
          currentFrame r' = currentFrame r \<and> config r' = config r \<and>
          newConfig r' = newConfig r \<and> resetSwapchain r' = resetSwapchain r \<and>
          swapchainImageCount r' = swapchainImageCount r"
proof -
  let ?r0 = "r\<lparr>procedStartFrame := True, previousTime := performanceCounter e\<rparr>"
  let ?fence = "inFlightFences r ! currentFrame r"
  let ?r1 = "?r0\<lparr>scImageIndex := i, imagesInFlight := (imagesInFlight r)[i := ?fence]\<rparr>"
  have wf0: "wellFormed K ?r0" using wf by (simp add: wellFormed_def)
  have a: "waitAndAcquire e ?r0 (world p) = Inr (?r1, emits (syncCalls r i) (world p))"
    using waitAndAcquire_ok[OF wf0, of e i "world p"] acq by (simp add: syncCalls_def)
  have len: "i < length (framebuffers r)" "i < length (swapchainImages r)"
    "0 < length (cameras r)" "VK2D_MAX_CAMERAS K \<le> length (cameras r)"
    using wf acq by (simp_all add: wellFormed_def)
  from flushCameras_ok[OF len(4), of i 0 "emits (syncCalls r i @ [ResetBoundPointers]) (world p)"]
  obtain cams' cs where
    f: "flushCameras K i 0 (cameras r) (emits (syncCalls r i @ [ResetBoundPointers]) (world p)) =
          Inr (cams', emits cs (emits (syncCalls r i @ [ResetBoundPointers]) (world p)))"
      "length cams' = length (cameras r)" "list_all isCameraCall cs"
    by blast
  let ?r2 = "?r1\<lparr>targetFrameBuffer := framebuffers r ! i, targetRenderPass := renderPass r,
                   targetSubPass := 0, targetImage := swapchainImages r ! i,
                   targetUBOSet := uboSets (cameras r ! 0) i,
                   target := VK2D_TARGET_SCREEN K, cameras := cams'\<rparr>"
  have res: "vk2dRendererStartFrame K e clearColour p =
            Inr (p\<lparr>world := emits (syncCalls r i @ [ResetBoundPointers] @ cs @
                                    recordingCalls e clearColour r i) (world p),
                   gRenderer := Some ?r2\<rparr>)"
    using g idle len
    by (simp add: vk2dRendererStartFrame_def a f Let_def recordingCalls_def emit_as_emits
        vk2dErrorCheck_def)
  have wf2: "wellFormed K ?r2" using wf f(2) by (simp add: wellFormed_def)
  show ?thesis
    apply (rule exI[of _ ?r2], rule exI[of _ cs])
    using res f(3) wf2 by simp
qed

lemma hangWhileMinimized_calls:
  "hangWhileMinimized ms w = Inr w1 \<Longrightarrow> \<exists>n. w1 = emits (replicate n PumpEvents) w"
proof (induction ms arbitrary: w)
  case Nil
  then show ?case by simp
next
  case (Cons m ms)
  show ?case
  proof (cases m)
    case True
    with Cons.prems have "hangWhileMinimized ms (emit PumpEvents w) = Inr w1" by simp
    from Cons.IH[OF this] obtain n where "w1 = emits (replicate n PumpEvents) (emit PumpEvents w)"
      by blast
    then have "w1 = emits (replicate (Suc n) PumpEvents) w"
      by (simp add: emit_as_emits replicate_append_same)
    then show ?thesis by blast
  next
    case False
    with Cons.prems have "w1 = emits (replicate 0 PumpEvents) w" by simp
    then show ?thesis by blast
  qed
qed

lemma getPresentModeLoop_result:
  "getPresentModeLoop r mode i = Inr m \<Longrightarrow> m = mode \<or> m = VK_PRESENT_MODE_FIFO_KHR"
proof (induction r mode i rule: getPresentModeLoop.induct)
  case (1 r mode i)
  from "1.prems" show ?case
    apply (subst (asm) getPresentModeLoop.simps)
    apply (auto split: if_splits sum.splits dest: "1.IH")
    done
qed

lemma getPresentModeLoop_exact:
  "getPresentModeLoop r mode i = Inr m \<Longrightarrow>
     m = (if mode \<in> set (drop i (take (presentModeCount r) (presentModes r)))
          then mode else VK_PRESENT_MODE_FIFO_KHR)"
proof (induction r mode i rule: getPresentModeLoop.induct)
  case (1 r mode i)
  show ?case
  proof (cases "i < presentModeCount r")
    case False
    then have "drop i (take (presentModeCount r) (presentModes r)) = []" by simp
    moreover have "m = VK_PRESENT_MODE_FIFO_KHR"
      using "1.prems" False by (subst (asm) getPresentModeLoop.simps) simp
    ultimately show ?thesis by simp
  next
    case True
    from "1.prems" True have len: "i < length (presentModes r)"
      by (subst (asm) getPresentModeLoop.simps) (auto simp: nthE_def split: if_splits)
    then have n: "nthE (presentModes r) i = Inr (presentModes r ! i)" by simp
    have d: "drop i (take (presentModeCount r) (presentModes r)) =
        presentModes r ! i # drop (i + 1) (take (presentModeCount r) (presentModes r))"
      using True len by (simp add: Cons_nth_drop_Suc[symmetric])
    show ?thesis
    proof (cases "presentModes r ! i = mode")
      case eq: True
      have "m = mode"
        using "1.prems" True n eq by (subst (asm) getPresentModeLoop.simps) simp
      then show ?thesis using d eq by simp
    next
      case neq: False
      have "getPresentModeLoop r mode (i + 1) = Inr m"
        using "1.prems" True n neq by (subst (asm) getPresentModeLoop.simps) simp
      from "1.IH"[OF True n neq this] show ?thesis using d neq by auto
    qed
  qed
qed

lemma rebuild_effect:
  assumes "vk2dRendererResetSwapchain_internal K e (r, w, h) = Inr (r', w', h')"
  shows "ld r' = ld r \<and> ld r \<noteq> None \<and> currentFrame r' = currentFrame r \<and>
     procedStartFrame r' = procedStartFrame r \<and> resetSwapchain r' = resetSwapchain r \<and>
     cameras r' = cameras r \<and> newConfig r' = newConfig r \<and>
     presentModes r' = presentModes r \<and> presentModeCount r' = presentModeCount r \<and>
     config r' = (newConfig r)\<lparr>screenMode := screenMode (config r')\<rparr> \<and>
     (screenMode (config r') = screenMode (newConfig r) \<or>
      screenMode (config r') = VK_PRESENT_MODE_FIFO_KHR) \<and>
     screenMode (config r') =
       (if screenMode (newConfig r) \<in> set (take (presentModeCount r) (presentModes r))
        then screenMode (newConfig r) else VK_PRESENT_MODE_FIFO_KHR) \<and>
     swapchainImageCount r' = length (newSwapchainImages e) \<and>
     swapchainImages r' = newSwapchainImages e \<and>
     length (framebuffers r') = swapchainImageCount r' \<and>
     imagesInFlight r' = replicate (swapchainImageCount r') VK_NULL_HANDLE \<and>
     length (inFlightFences r') = VK2D_MAX_FRAMES_IN_FLIGHT K \<and>
     length (imageAvailableSemaphores r') = VK2D_MAX_FRAMES_IN_FLIGHT K \<and>
     length (renderFinishedSemaphores r') = VK2D_MAX_FRAMES_IN_FLIGHT K \<and>
     (\<exists>n. w' = emits (replicate n PumpEvents @ rebuildCalls K r) w)"
proof -
  from assms obtain w1 l mode where
    hang: "hangWhileMinimized (windowMinimized e) w = Inr w1" and l: "ld r = Some l"
    and mode: "vk2dRendererGetPresentMode
                 (vk2dRendererGetSurfaceSize e (r\<lparr>msaaImage := VK_NULL_HANDLE, config := newConfig r\<rparr>))
                 (screenMode (newConfig r)) = Inr mode"
    by (auto simp: vk2dRendererResetSwapchain_internal_def bindF_eq_Inr vk2dRendererCreateSwapchain_def
        derefE_def vk2dRendererGetSurfaceSize_def split: option.splits if_splits)
  from hangWhileMinimized_calls[OF hang] obtain n where w1: "w1 = emits (replicate n PumpEvents) w"
    by blast
  have m: "mode = screenMode (newConfig r) \<or> mode = VK_PRESENT_MODE_FIFO_KHR"
    using mode getPresentModeLoop_result by (auto simp: vk2dRendererGetPresentMode_def)
  have m2: "mode =
       (if screenMode (newConfig r) \<in> set (take (presentModeCount r) (presentModes r))
        then screenMode (newConfig r) else VK_PRESENT_MODE_FIFO_KHR)"
    using getPresentModeLoop_exact[OF mode[unfolded vk2dRendererGetPresentMode_def]]
    by (simp add: vk2dRendererGetSurfaceSize_def)
  have "w' = emits (replicate n PumpEvents @ rebuildCalls K r) w"
    using assms hang l mode w1
    by (simp add: vk2dRendererResetSwapchain_internal_def vk2dRendererCreateSwapchain_def
        createAfterSwapchain_def vk2dRendererCreateSynchronization_def logOnly_def
        vk2dRendererCreateFrameBuffer_def vk2dRendererCreateRenderPass_def
        vk2dRendererCreateColourResources_def vk2dRendererGetSurfaceSize_def destroyAll_def
        rebuildCalls_def emit_as_emits split: if_splits)
  moreover have "ld r' = ld r \<and> ld r \<noteq> None \<and> currentFrame r' = currentFrame r \<and>
     procedStartFrame r' = procedStartFrame r \<and> resetSwapchain r' = resetSwapchain r \<and>
     cameras r' = cameras r \<and> newConfig r' = newConfig r \<and>
     presentModes r' = presentModes r \<and> presentModeCount r' = presentModeCount r \<and>
     config r' = (newConfig r)\<lparr>screenMode := mode\<rparr> \<and>
     swapchainImageCount r' = length (newSwapchainImages e) \<and>
     swapchainImages r' = newSwapchainImages e \<and>
     length (framebuffers r') = swapchainImageCount r' \<and>
     imagesInFlight r' = replicate (swapchainImageCount r') VK_NULL_HANDLE \<and>
     length (inFlightFences r') = VK2D_MAX_FRAMES_IN_FLIGHT K \<and>
     length (imageAvailableSemaphores r') = VK2D_MAX_FRAMES_IN_FLIGHT K \<and>
     length (renderFinishedSemaphores r') = VK2D_MAX_FRAMES_IN_FLIGHT K"
    using assms hang l mode
    by (auto simp: vk2dRendererResetSwapchain_internal_def vk2dRendererCreateSwapchain_def
        createAfterSwapchain_def vk2dRendererCreateSynchronization_def logOnly_def
        vk2dRendererCreateFrameBuffer_def vk2dRendererCreateRenderPass_def
        vk2dRendererCreateColourResources_def vk2dRendererGetSurfaceSize_def fresh_def
        split: if_splits)
  ultimately show ?thesis using m m2 by auto
qed

lemma hangWhileMinimized_returns:
  "False \<in> set ms \<Longrightarrow> \<exists>w1. hangWhileMinimized ms w = Inr w1"
  by (induction ms arbitrary: w) auto

lemma getPresentModeLoop_returns:
  "presentModeCount r \<le> length (presentModes r) \<Longrightarrow> \<exists>m. getPresentModeLoop r mode i = Inr m"
proof (induction r mode i rule: getPresentModeLoop.induct)
  case (1 r mode i)
  show ?case
  proof (cases "i < presentModeCount r")
    case False
    then show ?thesis by (subst getPresentModeLoop.simps) simp
  next
    case True
    then have n: "nthE (presentModes r) i = Inr (presentModes r ! i)" using "1.prems" by simp
    show ?thesis
    proof (cases "presentModes r ! i = mode")
      case True
      with \<open>i < presentModeCount r\<close> n show ?thesis
        by (subst getPresentModeLoop.simps) simp
    next
      case False
      from "1.IH"[OF True n False "1.prems"] obtain m where
        "getPresentModeLoop r mode (i + 1) = Inr m" by blast
      with True n False show ?thesis
        by (subst getPresentModeLoop.simps) simp
    qed
  qed
qed

lemma rebuild_returns:
  assumes "ld r \<noteq> None" "False \<in> set (windowMinimized e)"
    "presentModeCount r \<le> length (presentModes r)"
  shows "\<exists>s'. vk2dRendererResetSwapchain_internal K e (r, w, h) = Inr s'"
proof -
  from hangWhileMinimized_returns[OF assms(2)] obtain w1 where
    h: "hangWhileMinimized (windowMinimized e) w = Inr w1" by blast
  from assms(1) obtain l where l: "ld r = Some l" by auto
  let ?r1 = "vk2dRendererGetSurfaceSize e (r\<lparr>msaaImage := VK_NULL_HANDLE, config := newConfig r\<rparr>)"
  have "presentModeCount ?r1 \<le> length (presentModes ?r1)"
    using assms(3) by (simp add: vk2dRendererGetSurfaceSize_def)
  from getPresentModeLoop_returns[OF this] obtain m where
    m: "getPresentModeLoop ?r1 (screenMode (config ?r1)) 0 = Inr m" by blast
  show ?thesis
    using h l m
    apply (simp add: vk2dRendererResetSwapchain_internal_def vk2dRendererCreateSwapchain_def
        vk2dRendererGetPresentMode_def)
    apply (rule prod_cases3)
    apply blast
    done
qed

lemma accountTime_fields [simp]:
  "ld (accountTime e r) = ld r"
  "config (accountTime e r) = config r"
  "newConfig (accountTime e r) = newConfig r"
  "resetSwapchain (accountTime e r) = resetSwapchain r"
  "procedStartFrame (accountTime e r) = procedStartFrame r"
  "currentFrame (accountTime e r) = currentFrame r"
  "swapchainImageCount (accountTime e r) = swapchainImageCount r"
  "swapchainImages (accountTime e r) = swapchainImages r"
  "framebuffers (accountTime e r) = framebuffers r"
  "inFlightFences (accountTime e r) = inFlightFences r"
  "imageAvailableSemaphores (accountTime e r) = imageAvailableSemaphores r"
  "renderFinishedSemaphores (accountTime e r) = renderFinishedSemaphores r"
  "imagesInFlight (accountTime e r) = imagesInFlight r"
  "cameras (accountTime e r) = cameras r"
  "presentModes (accountTime e r) = presentModes r"
  "presentModeCount (accountTime e r) = presentModeCount r"
  "target (accountTime e r) = target r"
  by (simp_all add: accountTime_def Let_def)

lemma rebuildNeeded_procedStartFrame [simp]:
  "rebuildNeeded e (r\<lparr>procedStartFrame := b\<rparr>) = rebuildNeeded e r"
  by (simp add: rebuildNeeded_def)

lemma endFrame_rebuild:
  assumes g: "gRenderer p = Some r" and active: "procedStartFrame r"
    and res: "vk2dRendererEndFrame K e p = Inr p'" and need: "rebuildNeeded e r"
  shows "\<exists>r' n. gRenderer p' = Some r' \<and> textures p' = textures p \<and>
     world p' = emits (presentCalls e r @ replicate n PumpEvents @ rebuildCalls K r) (world p) \<and>
     0 < VK2D_MAX_FRAMES_IN_FLIGHT K \<and>
     currentFrame r' = (currentFrame r + 1) mod VK2D_MAX_FRAMES_IN_FLIGHT K \<and>
     \<not> procedStartFrame r' \<and> \<not> resetSwapchain r' \<and> newConfig r' = newConfig r \<and>
     config r' = (newConfig r)\<lparr>screenMode := screenMode (config r')\<rparr> \<and>
     (screenMode (config r') = screenMode (newConfig r) \<or>
      screenMode (config r') = VK_PRESENT_MODE_FIFO_KHR) \<and>
     screenMode (config r') =
       (if screenMode (newConfig r) \<in> set (take (presentModeCount r) (presentModes r))
        then screenMode (newConfig r) else VK_PRESENT_MODE_FIFO_KHR) \<and>
     (wellFormed K r \<longrightarrow> wellFormed K r')"
proof -
  let ?r3 = "r\<lparr>procedStartFrame := False\<rparr>"
  from res g active obtain l where l: "ld r = Some l"
    and cf: "currentFrame r < length (renderFinishedSemaphores r)"
      "currentFrame r < length (imageAvailableSemaphores r)"
      "currentFrame r < length (inFlightFences r)"
    by (auto simp: vk2dRendererEndFrame_def bindF_eq_Inr nthE_eq_Inr derefE_def split: option.splits)
  let ?w3 = "emits (presentCalls e r) (world p)"
  from res g active l cf need obtain r4 w4 h4 where
    rb: "vk2dRendererResetSwapchain_internal K e (?r3, ?w3, nextHandle p) = Inr (r4, w4, h4)"
    and pos: "0 < VK2D_MAX_FRAMES_IN_FLIGHT K"
    and p': "p' = p\<lparr>world := w4,
               gRenderer := Some (accountTime e
                  (r4\<lparr>resetSwapchain := False,
                      currentFrame := (currentFrame r4 + 1) mod VK2D_MAX_FRAMES_IN_FLIGHT K\<rparr>)),
               nextHandle := h4\<rparr>"
    by (auto simp: vk2dRendererEndFrame_def Let_def bindF_eq_Inr presentCalls_def emit_as_emits
        vk2dErrorCheck_def split: if_splits)
  note re = rebuild_effect[OF rb]
  have eff: "ld r4 = ld r" "currentFrame r4 = currentFrame r" "procedStartFrame r4 = False"
      "cameras r4 = cameras r" "newConfig r4 = newConfig r"
      "presentModes r4 = presentModes r" "presentModeCount r4 = presentModeCount r"
      "config r4 = (newConfig r)\<lparr>screenMode := screenMode (config r4)\<rparr>"
      "screenMode (config r4) = screenMode (newConfig r) \<or>
       screenMode (config r4) = VK_PRESENT_MODE_FIFO_KHR"
      "screenMode (config r4) =
       (if screenMode (newConfig r) \<in> set (take (presentModeCount r) (presentModes r))
        then screenMode (newConfig r) else VK_PRESENT_MODE_FIFO_KHR)"
      "length (framebuffers r4) = swapchainImageCount r4"
      "imagesInFlight r4 = replicate (swapchainImageCount r4) VK_NULL_HANDLE"
      "length (swapchainImages r4) = swapchainImageCount r4"
      "length (inFlightFences r4) = VK2D_MAX_FRAMES_IN_FLIGHT K"
      "length (imageAvailableSemaphores r4) = VK2D_MAX_FRAMES_IN_FLIGHT K"
      "length (renderFinishedSemaphores r4) = VK2D_MAX_FRAMES_IN_FLIGHT K"
    using re by (auto split: if_splits)
  from re obtain n where w4: "w4 = emits (replicate n PumpEvents @ rebuildCalls K ?r3) ?w3"
    by blast
  have rc: "rebuildCalls K ?r3 = rebuildCalls K r" by (simp add: rebuildCalls_def)
  let ?r' = "accountTime e (r4\<lparr>resetSwapchain := False,
                      currentFrame := (currentFrame r4 + 1) mod VK2D_MAX_FRAMES_IN_FLIGHT K\<rparr>)"
  have wf: "wellFormed K r \<longrightarrow> wellFormed K ?r'"
    using eff pos by (simp add: wellFormed_def)
  have cfg: "config ?r' = (newConfig r)\<lparr>screenMode := screenMode (config ?r')\<rparr>"
    using eff(8) by simp
  show ?thesis
    apply (rule exI[of _ ?r'], rule exI[of _ n])
    using p' w4 rc eff pos wf cfg by simp
qed

lemma endFrame_plain:
  assumes g: "gRenderer p = Some r" and active: "procedStartFrame r"
    and res: "vk2dRendererEndFrame K e p = Inr p'" and need: "\<not> rebuildNeeded e r"
  shows "\<exists>r'. gRenderer p' = Some r' \<and> textures p' = textures p \<and>
     world p' = emits (presentCalls e r @
                  [ErrorCheck (presentResult e), ErrorCheck (queuePresentResult e)]) (world p) \<and>
     0 < VK2D_MAX_FRAMES_IN_FLIGHT K \<and>
     currentFrame r' = (currentFrame r + 1) mod VK2D_MAX_FRAMES_IN_FLIGHT K \<and>
     \<not> procedStartFrame r' \<and> resetSwapchain r' = resetSwapchain r \<and>
     newConfig r' = newConfig r \<and> config r' = config r \<and>
     (wellFormed K r \<longrightarrow> wellFormed K r')"
proof -
  from res g active obtain l where l: "ld r = Some l"
    and cf: "currentFrame r < length (renderFinishedSemaphores r)"
      "currentFrame r < length (imageAvailableSemaphores r)"
      "currentFrame r < length (inFlightFences r)"
    by (auto simp: vk2dRendererEndFrame_def bindF_eq_Inr nthE_eq_Inr derefE_def split: option.splits)
  let ?r' = "accountTime e (r\<lparr>procedStartFrame := False,
                      currentFrame := (currentFrame r + 1) mod VK2D_MAX_FRAMES_IN_FLIGHT K\<rparr>)"
  from res g active l cf need have
    pos: "0 < VK2D_MAX_FRAMES_IN_FLIGHT K"
    and p': "p' = p\<lparr>world := emits (presentCalls e r @
                  [ErrorCheck (presentResult e), ErrorCheck (queuePresentResult e)]) (world p),
               gRenderer := Some ?r', nextHandle := nextHandle p\<rparr>"
    by (auto simp: vk2dRendererEndFrame_def Let_def presentCalls_def emit_as_emits
        vk2dErrorCheck_def split: if_splits)
  have wf: "wellFormed K r \<longrightarrow> wellFormed K ?r'"
    using pos by (simp add: wellFormed_def)
  show ?thesis
    apply (rule exI[of _ ?r'])
    using p' pos wf by simp
qed

lemma endFrame_returns:
  assumes g: "gRenderer p = Some r" and wf: "wellFormed K r"
    and env: "False \<in> set (windowMinimized e)"
  shows "\<exists>p'. vk2dRendererEndFrame K e p = Inr p'"
proof (cases "procedStartFrame r")
  case False
  with g show ?thesis by (simp add: vk2dRendererEndFrame_def)
next
  case True
  from wf obtain l where l: "ld r = Some l" by (auto simp: wellFormed_def)
  have cf: "currentFrame r < length (renderFinishedSemaphores r)"
      "currentFrame r < length (imageAvailableSemaphores r)"
      "currentFrame r < length (inFlightFences r)" "0 < VK2D_MAX_FRAMES_IN_FLIGHT K"
    using wf by (simp_all add: wellFormed_def)
  have pm: "presentModeCount r \<le> length (presentModes r)" using wf by (simp add: wellFormed_def)
  show ?thesis
  proof (cases "rebuildNeeded e r")
    case False
    with g True l cf show ?thesis
      by (simp add: vk2dRendererEndFrame_def Let_def)
  next
    case need: True
    let ?r3 = "r\<lparr>procedStartFrame := False\<rparr>"
    let ?w3 = "emit (QueuePresentKHR (swapchain r) (scImageIndex r) (renderFinishedSemaphores r ! currentFrame r))
       (vk2dErrorCheck
         (emit (QueueSubmit (commandBuffer r (scImageIndex r)) (imageAvailableSemaphores r ! currentFrame r)
                  (renderFinishedSemaphores r ! currentFrame r) (inFlightFences r ! currentFrame r))
            (emit (ResetFences (inFlightFences r ! currentFrame r))
               (vk2dErrorCheck
                  (emit (EndCommandBuffer (commandBuffer r (scImageIndex r)))
                     (emit (CmdEndRenderPass (commandBuffer r (scImageIndex r))) (world p)))
                  (endCommandBufferResult e))))
         (queueSubmitResult e))"
    have "ld ?r3 \<noteq> None" "presentModeCount ?r3 \<le> length (presentModes ?r3)"
      using l pm by simp_all
    from rebuild_returns[OF this(1) env this(2), of K ?w3 "nextHandle p"] obtain s' where
      "vk2dRendererResetSwapchain_internal K e (?r3, ?w3, nextHandle p) = Inr s'" by blast
    with g True l cf need show ?thesis
      by (cases s') (simp add: vk2dRendererEndFrame_def Let_def)
  qed
qed

lemma example_wellFormed: "wellFormed exampleK exampleRenderer"
  by (simp add: wellFormed_def exampleK_def exampleRenderer_def)

lemma startFrame_result:
  assumes g: "gRenderer p = Some r" and idle: "\<not> procedStartFrame r"
    and res: "vk2dRendererStartFrame K e clearColour p = Inr p'"
  shows "\<exists>r'. gRenderer p' = Some r' \<and> procedStartFrame r' \<and> config r' = config r \<and>
           newConfig r' = newConfig r \<and> resetSwapchain r' = resetSwapchain r \<and>
           textures p' = textures p"
proof -
  let ?r0 = "r\<lparr>procedStartFrame := True, previousTime := performanceCounter e\<rparr>"
  from res g idle obtain r1 w1 where a: "waitAndAcquire e ?r0 (world p) = Inr (r1, w1)"
    by (auto simp: vk2dRendererStartFrame_def bindF_eq_Inr)
  then have r1: "procedStartFrame r1" "config r1 = config r" "newConfig r1 = newConfig r"
    "resetSwapchain r1 = resetSwapchain r"
    by (auto simp: waitAndAcquire_def bindF_eq_Inr Let_def)
  from res g idle a r1 show ?thesis
    by (auto simp: vk2dRendererStartFrame_def bindF_eq_Inr Let_def)
qed

lemma endFrame_result:
  assumes g: "gRenderer p = Some r" and res: "vk2dRendererEndFrame K e p = Inr p'"
  shows "\<exists>r'. gRenderer p' = Some r' \<and> \<not> procedStartFrame r' \<and> textures p' = textures p"
proof (cases "procedStartFrame r")
  case False
  with g res show ?thesis by (auto simp: vk2dRendererEndFrame_def)
next
  case True
  show ?thesis
  proof (cases "rebuildNeeded e r")
    case True
    from endFrame_rebuild[OF g \<open>procedStartFrame r\<close> res True] show ?thesis by blast
  next
    case False
    from endFrame_plain[OF g \<open>procedStartFrame r\<close> res False] show ?thesis by blast
  qed
qed

lemma frameReachable_wellFormed:
  "frameReachable K p \<Longrightarrow> \<exists>r. gRenderer p = Some r \<and> wellFormed K r"
proof (induction rule: frameReachable.induct)
  case (idle p r)
  then show ?case by blast
next
  case (started p r e i clearColour p')
  then obtain r0 where r0: "gRenderer p = Some r0" "wellFormed K r0" by blast
  with started have eq: "r0 = r" by simp
  show ?case
  proof (cases "procedStartFrame r")
    case True
    with started r0 eq show ?thesis by (auto simp: vk2dRendererStartFrame_def)
  next
    case False
    from startFrame_ok[OF started(2) _ False started(3,4), of K clearColour] r0 eq started(5)
    show ?thesis by auto
  qed
next
  case (ended p e p')
  then obtain r where r: "gRenderer p = Some r" "wellFormed K r" by blast
  show ?case
  proof (cases "procedStartFrame r")
    case False
    with ended r show ?thesis by (auto simp: vk2dRendererEndFrame_def)
  next
    case True
    show ?thesis
    proof (cases "rebuildNeeded e r")
      case need: True
      from endFrame_rebuild[OF r(1) True ended(2) need] r(2) show ?thesis by blast
    next
      case False
      from endFrame_plain[OF r(1) True ended(2) False] r(2) show ?thesis by blast
    qed
  qed
qed

lemma example_reachable_frame: "frameReachable exampleK exampleProgram"
  by (rule frameReachable.idle[of _ exampleRenderer])
    (simp_all add: exampleProgram_def example_wellFormed, simp add: exampleRenderer_def)

lemma emitted_Inr: "emitted p (Inr p') = drop (length (calls (world p))) (calls (world p'))"
  by (simp add: emitted_def)

lemma setTarget_same:
  "gRenderer p = Some r \<Longrightarrow> tgt = target r \<Longrightarrow> vk2dRendererSetTarget K tgt p = Inr p"
  by (simp add: vk2dRendererSetTarget_def)

lemma setTarget_switch:
  assumes g: "gRenderer p = Some r" and ne: "tgt \<noteq> target r"
    and res: "vk2dRendererSetTarget K tgt p = Inr p'"
  shows "\<exists>r' w h. gRenderer p' = Some r' \<and> target r' = tgt \<and> textures p' = textures p \<and>
     config r' = config r \<and> newConfig r' = newConfig r \<and>
     resetSwapchain r' = resetSwapchain r \<and> procedStartFrame r' = procedStartFrame r \<and>
     targetRenderPass r' =
       (if tgt = VK2D_TARGET_SCREEN K then midFrameSwapRenderPass r else externalTargetRenderPass r) \<and>
     calls (world p') = calls (world p) @
       [CmdEndRenderPass (commandBuffer r (scImageIndex r)),
        (if tgt = VK2D_TARGET_SCREEN K
         then TransitionImageLayout (targetImage r) VK_IMAGE_LAYOUT_COLOR_ATTACHMENT_OPTIMAL
                VK_IMAGE_LAYOUT_SHADER_READ_ONLY_OPTIMAL
         else TransitionImageLayout (targetImage r') VK_IMAGE_LAYOUT_SHADER_READ_ONLY_OPTIMAL
                VK_IMAGE_LAYOUT_COLOR_ATTACHMENT_OPTIMAL),
        CmdBeginRenderPass (commandBuffer r (scImageIndex r)) (targetRenderPass r')
          (targetFrameBuffer r') w h None,
        ResetBoundPointers]"
proof (cases "tgt = VK2D_TARGET_SCREEN K")
  case True
  with g ne res show ?thesis
    by (auto simp: vk2dRendererSetTarget_def bindF_eq_Inr Let_def)
next
  case False
  with g ne res show ?thesis
    by (auto simp: vk2dRendererSetTarget_def bindF_eq_Inr Let_def)
qed

lemma setTarget_to_screen:
  assumes g: "gRenderer p = Some r" and ne: "tgt \<noteq> target r"
    and scr: "tgt = VK2D_TARGET_SCREEN K"
    and idx: "scImageIndex r < length (framebuffers r)" "scImageIndex r < length (swapchainImages r)"
      "cameras r \<noteq> []"
  shows "vk2dRendererSetTarget K tgt p =
     Inr (p\<lparr>world := emits
            [CmdEndRenderPass (commandBuffer r (scImageIndex r)),
             TransitionImageLayout (targetImage r) VK_IMAGE_LAYOUT_COLOR_ATTACHMENT_OPTIMAL
               VK_IMAGE_LAYOUT_SHADER_READ_ONLY_OPTIMAL,
             CmdBeginRenderPass (commandBuffer r (scImageIndex r)) (midFrameSwapRenderPass r)
               (framebuffers r ! scImageIndex r) (surfaceWidth r) (surfaceHeight r) None,
             ResetBoundPointers] (world p),
          gRenderer := Some (r\<lparr>target := tgt, targetRenderPass := midFrameSwapRenderPass r,
             targetFrameBuffer := framebuffers r ! scImageIndex r,
             targetImage := swapchainImages r ! scImageIndex r,
             targetUBOSet := uboSets (cameras r ! 0) (scImageIndex r)\<rparr>)\<rparr>)"
proof -
  have "0 < length (cameras r)" using idx(3) by simp
  then show ?thesis
    using g ne scr idx(1,2)
    by (simp add: vk2dRendererSetTarget_def Let_def emit_as_emits)
qed

lemma setTarget_to_texture:
  assumes g: "gRenderer p = Some r" and ne: "tgt \<noteq> target r"
    and tex: "tgt \<noteq> VK2D_TARGET_SCREEN K" "textures p tgt = Some t" "tex_img t = Some im"
  shows "vk2dRendererSetTarget K tgt p =
     Inr (p\<lparr>world := emits
            [CmdEndRenderPass (commandBuffer r (scImageIndex r)),
             TransitionImageLayout (img_img im) VK_IMAGE_LAYOUT_SHADER_READ_ONLY_OPTIMAL
               VK_IMAGE_LAYOUT_COLOR_ATTACHMENT_OPTIMAL,
             CmdBeginRenderPass (commandBuffer r (scImageIndex r)) (externalTargetRenderPass r)
               (tex_fbo t) (img_width im) (img_height im) None,
             ResetBoundPointers] (world p),
          gRenderer := Some (r\<lparr>target := tgt, targetRenderPass := externalTargetRenderPass r,
             targetFrameBuffer := tex_fbo t, targetImage := img_img im,
             targetUBOSet := tex_uboSet t\<rparr>)\<rparr>)"
  using g ne tex by (simp add: vk2dRendererSetTarget_def Let_def emit_as_emits)

lemma emitted_emits: "emitted p (Inr (p\<lparr>world := emits cs (world p), gRenderer := x\<rparr>)) = cs"
  by (simp add: emitted_def)

lemma emits_changes: "cs \<noteq> [] \<Longrightarrow> p\<lparr>world := emits cs (world p), gRenderer := x\<rparr> \<noteq> p"
proof
  assume ne: "cs \<noteq> []" and eq: "p\<lparr>world := emits cs (world p), gRenderer := x\<rparr> = p"
  have "calls (world (p\<lparr>world := emits cs (world p), gRenderer := x\<rparr>)) = calls (world p) @ cs"
    by simp
  with eq have "calls (world p) = calls (world p) @ cs" by simp
  with ne show False by simp
qed

lemmas active_defs = activeProgram_def activeRenderer_def exampleProgram_def exampleRenderer_def
  exampleCamera_def exampleTexture_def exampleWorld_def exampleK_def zeroCameraSpec_def

lemma example_setTarget_texture:
  "vk2dRendererSetTarget exampleK 5 activeProgram =
     Inr (activeProgram\<lparr>world := emits
            [CmdEndRenderPass 61,
             TransitionImageLayout 91 VK_IMAGE_LAYOUT_SHADER_READ_ONLY_OPTIMAL
               VK_IMAGE_LAYOUT_COLOR_ATTACHMENT_OPTIMAL,
             CmdBeginRenderPass 61 72 90 64 64 None, ResetBoundPointers] exampleWorld,
          gRenderer := Some (activeRenderer\<lparr>target := 5, targetRenderPass := 72,
             targetFrameBuffer := 90, targetImage := 91, targetUBOSet := 92\<rparr>)\<rparr>)"
  by (simp add: vk2dRendererSetTarget_def active_defs Let_def emit_as_emits)

lemma rebuildCalls_has_swapchain: "Create Swapchain \<in> set (rebuildCalls K r)"
  by (simp add: rebuildCalls_def)

lemma presentCalls_no_create: "Create Swapchain \<notin> set (presentCalls e r)"
  by (simp add: presentCalls_def)

lemma example_active_wellFormed: "wellFormed exampleK activeRenderer"
  by (simp add: wellFormed_def exampleK_def activeRenderer_def exampleRenderer_def)

subsection \<open>Claims about the descriptor pool controller\<close>

text \<open>
  Claim C1 does not hold of a controller that enables the uniform buffer, the sampled
  image and the storage buffer together. \<^verbatim>\<open>_vk2dDescConAppendList\<close> then writes a
  third entry into its two-element array \<^verbatim>\<open>sizes\<close>: the creation of such a controller
  writes outside the array, and so does the \<^verbatim>\<open>getSet\<close> call that finds every pool in
  use full, where the claim has a pool of the same sizing appended and a valid set
  returned.
\<close>

theorem three_kinds_overrun_sizes:
  "vk2dDescConCreate exampleK exampleWorld 1 7 0 1 2 = Inl OutOfBounds \<and>
   fillSizes exampleK threeKindCon = Inl OutOfBounds \<and>
   0 < deviceMemory fullWorld \<and> 0 < hostMemory fullWorld \<and>
   vk2dDescConGetSet exampleK fullWorld (Some threeKindCon) = Inl OutOfBounds"
  by (simp add: vk2dDescConCreate_def calloc_def vk2dPointerCheck_def vk2dDescConAppendList_def
      growList_def realloc_def emit_def fillSizes_def putSize_def exampleK_def exampleWorld_def
      threeKindCon_def exampleCon_def fullWorld_def vk2dDescConGetSet_def
      vk2dDescConGetAvailableSet_def getAvailableSetLoop.simps loopBody_def
      vkAllocateDescriptorSets_def livePool_def poolObject_def Let_def)




text \<open>
  Claim C9 does not hold after a refused \<^verbatim>\<open>realloc\<close>. The controller below is reached
  by one creation and four \<^verbatim>\<open>getSet\<close> calls; both its pools are full and its list is
  full. With no host memory left, \<^verbatim>\<open>_vk2dDescConAppendList\<close> reports the refused
  \<^verbatim>\<open>realloc\<close> and leaves the list as it is, \<open>poolsInUse = poolListSize\<close>, and then
  hands \<^verbatim>\<open>pools[poolsInUse]\<close>, an element outside the list, to the driver before it
  increments \<open>poolsInUse\<close>.
\<close>

theorem refused_realloc_overruns_pool_list:
  "reachable exampleK (starvedWorld, grownCon) \<and>
   poolsInUse grownCon = poolListSize grownCon \<and> poolListSize grownCon = length (pools grownCon) \<and>
   growList exampleK starvedWorld grownCon =
     (emits [Realloc 4 False, PointerCheck False] starvedWorld, grownCon) \<and>
   vk2dDescConAppendList exampleK starvedWorld grownCon = Inl OutOfBounds \<and>
   vk2dDescConGetSet exampleK starvedWorld (Some grownCon) = Inl OutOfBounds"
proof -
  have full: "poolsInUse grownCon = poolListSize grownCon"
    "poolListSize grownCon = length (pools grownCon)"
    by (simp_all add: grownCon_def exampleCon_def)
  have grow: "growList exampleK starvedWorld grownCon =
      (emits [Realloc 4 False, PointerCheck False] starvedWorld, grownCon)"
    by (simp add: growList_def realloc_def vk2dPointerCheck_def emit_def emits_def
        starvedWorld_def bothFullWorld_def grownCon_def exampleCon_def exampleK_def)
  have app: "vk2dDescConAppendList exampleK starvedWorld grownCon = Inl OutOfBounds"
    by (simp add: vk2dDescConAppendList_def grow fillSizes_def putSize_def)
      (simp add: grownCon_def exampleCon_def exampleK_def)
  have get: "vk2dDescConGetSet exampleK starvedWorld (Some grownCon) = Inl OutOfBounds"
    by (simp add: vk2dDescConGetSet_def vk2dDescConGetAvailableSet_def getAvailableSetLoop.simps
        loopBody_def vkAllocateDescriptorSets_def livePool_def poolObject_def
        vk2dDescConAppendList_def growList_def realloc_def vk2dPointerCheck_def
        fillSizes_def putSize_def emit_def Let_def
        starvedWorld_def bothFullWorld_def grownCon_def exampleCon_def exampleK_def)
  from example_reachable_starved full grow app get show ?thesis by simp
qed

subsection \<open>Claims about the renderer\<close>

text \<open>
  Claim C2. On an initialised renderer with an active frame
  \<^verbatim>\<open>vk2dRendererStartFrame\<close> returns the program state as it was: no call is made, no
  member changes. With no active frame \<^verbatim>\<open>vk2dRendererEndFrame\<close> returns the state as
  it was. Hence a second \<^verbatim>\<open>vk2dRendererStartFrame\<close> right after one that returned, and
  a second \<^verbatim>\<open>vk2dRendererEndFrame\<close> right after one that returned, change nothing,
  whatever the world would have answered.
\<close>

theorem frame_calls_are_idempotent:
  assumes g: "gRenderer p = Some r"
  shows "(procedStartFrame r \<longrightarrow> vk2dRendererStartFrame K e clearColour p = Inr p) \<and>
         (\<not> procedStartFrame r \<longrightarrow> vk2dRendererEndFrame K e p = Inr p) \<and>
         (\<forall>p'. vk2dRendererStartFrame K e clearColour p = Inr p' \<longrightarrow>
                vk2dRendererStartFrame K e2 clearColour2 p' = Inr p') \<and>
         (\<forall>p'. vk2dRendererEndFrame K e p = Inr p' \<longrightarrow>
                vk2dRendererEndFrame K e2 p' = Inr p')"
proof (intro conjI allI impI)
  assume "procedStartFrame r"
  with g show "vk2dRendererStartFrame K e clearColour p = Inr p"
    by (simp add: vk2dRendererStartFrame_def)
next
  assume "\<not> procedStartFrame r"
  with g show "vk2dRendererEndFrame K e p = Inr p"
    by (simp add: vk2dRendererEndFrame_def)
next
  fix p' assume s: "vk2dRendererStartFrame K e clearColour p = Inr p'"
  show "vk2dRendererStartFrame K e2 clearColour2 p' = Inr p'"
  proof (cases "procedStartFrame r")
    case True
    with g s show ?thesis by (simp add: vk2dRendererStartFrame_def)
  next
    case False
    from startFrame_result[OF g False s] show ?thesis
      by (auto simp: vk2dRendererStartFrame_def)
  qed
next
  fix p' assume s: "vk2dRendererEndFrame K e p = Inr p'"
  from endFrame_result[OF g s] show "vk2dRendererEndFrame K e2 p' = Inr p'"
    by (auto simp: vk2dRendererEndFrame_def)
qed

theorem frame_calls_are_idempotent_witness:
  "gRenderer exampleProgram = Some exampleRenderer \<and> \<not> procedStartFrame exampleRenderer \<and>
   vk2dRendererEndFrame exampleK exampleEnv exampleProgram = Inr exampleProgram \<and>
   (\<exists>p'. vk2dRendererStartFrame exampleK exampleEnv (0, 0, 0, 1) exampleProgram = Inr p' \<and>
          vk2dRendererStartFrame exampleK exampleEnv (0, 0, 0, 1) p' = Inr p')"
proof -
  have g: "gRenderer exampleProgram = Some exampleRenderer" by (simp add: exampleProgram_def)
  have idle: "\<not> procedStartFrame exampleRenderer" by (simp add: exampleRenderer_def)
  have acq: "acquiredImage exampleEnv = Some 1" "1 < swapchainImageCount exampleRenderer"
    by (simp_all add: exampleEnv_def exampleRenderer_def)
  from startFrame_ok[OF g example_wellFormed idle acq, of "(0, 0, 0, 1)"]
  obtain p' where s: "vk2dRendererStartFrame exampleK exampleEnv (0, 0, 0, 1) exampleProgram = Inr p'"
    by blast
  from frame_calls_are_idempotent[OF g, of exampleK exampleEnv "(0, 0, 0, 1)" exampleEnv "(0, 0, 0, 1)"]
  show ?thesis using g idle s by blast
qed

text \<open>
  Claim C3. In every state reachable by \<^verbatim>\<open>vk2dRendererStartFrame\<close> and
  \<^verbatim>\<open>vk2dRendererEndFrame\<close> from a well-formed renderer, a frame that starts (no frame
  is active, the driver acquires image \<open>i\<close> of the swapchain) returns, stays in the
  reachable states, and makes its calls in this order: the wait for the fence of the
  current frame slot, the acquisition of \<open>i\<close>, the wait for the fence recorded as the
  last user of image \<open>i\<close> exactly when that record is not the null handle, the reset of
  the bound pointers and the camera updates, and only then the reset and begin of the
  command buffer and the begin of the render pass. The fence of the current slot is
  recorded as the last user of image \<open>i\<close>.
\<close>

theorem startFrame_waits_before_recording:
  assumes reach: "frameReachable K p" and g: "gRenderer p = Some r"
    and idle: "\<not> procedStartFrame r"
    and acq: "acquiredImage e = Some i" "i < swapchainImageCount r"
  shows "\<exists>p' r' cs. vk2dRendererStartFrame K e clearColour p = Inr p' \<and>
           gRenderer p' = Some r' \<and> frameReachable K p' \<and>
           calls (world p') = calls (world p) @
             [WaitForFences (inFlightFences r ! currentFrame r),
              AcquireNextImageKHR (swapchain r) (imageAvailableSemaphores r ! currentFrame r)
                (Some i)] @
             (if imagesInFlight r ! i \<noteq> VK_NULL_HANDLE
              then [WaitForFences (imagesInFlight r ! i)] else []) @
             [ResetBoundPointers] @ cs @
             [ResetCommandBuffer (commandBuffer r i), BeginCommandBuffer (commandBuffer r i),
              ErrorCheck (beginCommandBufferResult e),
              CmdBeginRenderPass (commandBuffer r i) (renderPass r) (framebuffers r ! i)
                (surfaceWidth r) (surfaceHeight r) (Some clearColour)] \<and>
           list_all isCameraCall cs \<and>
           scImageIndex r' = i \<and>
           imagesInFlight r' = (imagesInFlight r)[i := inFlightFences r ! currentFrame r]"
proof -
  from frameReachable_wellFormed[OF reach] g have wf: "wellFormed K r" by auto
  from startFrame_ok[OF g wf idle acq, of clearColour] obtain r' cs where
    s: "vk2dRendererStartFrame K e clearColour p =
            Inr (p\<lparr>world := emits (syncCalls r i @ [ResetBoundPointers] @ cs @
                                    recordingCalls e clearColour r i) (world p),
                   gRenderer := Some r'\<rparr>)"
    and q: "list_all isCameraCall cs" "scImageIndex r' = i"
      "imagesInFlight r' = (imagesInFlight r)[i := inFlightFences r ! currentFrame r]"
    by blast
  let ?p' = "p\<lparr>world := emits (syncCalls r i @ [ResetBoundPointers] @ cs @
                                    recordingCalls e clearColour r i) (world p),
                   gRenderer := Some r'\<rparr>"
  have fr: "frameReachable K ?p'"
    by (rule frameReachable.started[OF reach g acq s])
  have c: "calls (world ?p') = calls (world p) @
             [WaitForFences (inFlightFences r ! currentFrame r),
              AcquireNextImageKHR (swapchain r) (imageAvailableSemaphores r ! currentFrame r)
                (Some i)] @
             (if imagesInFlight r ! i \<noteq> VK_NULL_HANDLE
              then [WaitForFences (imagesInFlight r ! i)] else []) @
             [ResetBoundPointers] @ cs @
             [ResetCommandBuffer (commandBuffer r i), BeginCommandBuffer (commandBuffer r i),
              ErrorCheck (beginCommandBufferResult e),
              CmdBeginRenderPass (commandBuffer r i) (renderPass r) (framebuffers r ! i)
                (surfaceWidth r) (surfaceHeight r) (Some clearColour)]"
    by (simp add: syncCalls_def recordingCalls_def)
  show ?thesis
    apply (rule exI[of _ ?p'], rule exI[of _ r'], rule exI[of _ cs])
    using s fr c q by simp
qed

theorem startFrame_waits_before_recording_witness:
  "frameReachable exampleK exampleProgram \<and>
   gRenderer exampleProgram = Some exampleRenderer \<and> \<not> procedStartFrame exampleRenderer \<and>
   acquiredImage exampleEnv = Some 1 \<and> 1 < swapchainImageCount exampleRenderer \<and>
   (\<exists>p' cs. vk2dRendererStartFrame exampleK exampleEnv (0, 0, 0, 1) exampleProgram = Inr p' \<and>
      calls (world p') =
        [WaitForFences 31, AcquireNextImageKHR 10 41 (Some 1), WaitForFences 32,
         ResetBoundPointers] @ cs @
        [ResetCommandBuffer 61, BeginCommandBuffer 61, ErrorCheck VK_SUCCESS,
         CmdBeginRenderPass 61 70 22 800 600 (Some (0, 0, 0, 1))])"
proof -
  have g: "gRenderer exampleProgram = Some exampleRenderer" by (simp add: exampleProgram_def)
  have idle: "\<not> procedStartFrame exampleRenderer" by (simp add: exampleRenderer_def)
  have acq: "acquiredImage exampleEnv = Some 1" "1 < swapchainImageCount exampleRenderer"
    by (simp_all add: exampleEnv_def exampleRenderer_def)
  from startFrame_waits_before_recording[OF example_reachable_frame g idle acq, of "(0, 0, 0, 1)"]
  obtain p' cs where
    "vk2dRendererStartFrame exampleK exampleEnv (0, 0, 0, 1) exampleProgram = Inr p'"
    "calls (world p') = calls (world exampleProgram) @
             [WaitForFences (inFlightFences exampleRenderer ! currentFrame exampleRenderer),
              AcquireNextImageKHR (swapchain exampleRenderer)
                (imageAvailableSemaphores exampleRenderer ! currentFrame exampleRenderer) (Some 1)] @
             (if imagesInFlight exampleRenderer ! 1 \<noteq> VK_NULL_HANDLE
              then [WaitForFences (imagesInFlight exampleRenderer ! 1)] else []) @
             [ResetBoundPointers] @ cs @
             [ResetCommandBuffer (commandBuffer exampleRenderer 1),
              BeginCommandBuffer (commandBuffer exampleRenderer 1),
              ErrorCheck (beginCommandBufferResult exampleEnv),
              CmdBeginRenderPass (commandBuffer exampleRenderer 1) (renderPass exampleRenderer)
                (framebuffers exampleRenderer ! 1)
                (surfaceWidth exampleRenderer) (surfaceHeight exampleRenderer) (Some (0, 0, 0, 1))]"
    by blast
  then have "\<exists>p' cs. vk2dRendererStartFrame exampleK exampleEnv (0, 0, 0, 1) exampleProgram = Inr p' \<and>
      calls (world p') =
        [WaitForFences 31, AcquireNextImageKHR 10 41 (Some 1), WaitForFences 32,
         ResetBoundPointers] @ cs @
        [ResetCommandBuffer 61, BeginCommandBuffer 61, ErrorCheck VK_SUCCESS,
         CmdBeginRenderPass 61 70 22 800 600 (Some (0, 0, 0, 1))]"
    by (simp add: exampleProgram_def exampleRenderer_def exampleEnv_def exampleWorld_def
        VK_NULL_HANDLE_def)
  then show ?thesis using example_reachable_frame g idle acq by blast
qed

text \<open>
  Claim C4, as the later file implements it. \<^verbatim>\<open>vk2dRendererSetTarget\<close> on an
  initialised renderer returns the state as it was when the requested target is the
  very address held in \<^verbatim>\<open>gRenderer->target\<close>. For any other address, equal contents or
  not, that is the screen (with the acquired image inside the swapchain arrays) or
  holds a texture with an image, the call returns, has changed the state, has made
  exactly one end of the render pass, one begin of the render pass of the new target
  over the new target's framebuffer, and one reset of the bound pointers, in this
  order, and an immediate second call with the same target changes nothing. Between
  the end and the begin it makes exactly one image layout transition when the switch
  is between the screen and a texture: of the texture's own image, from shader read to
  colour attachment, when the texture is the new target, and of the image recorded
  for the outgoing target, from colour attachment to shader read, when the screen is
  the new target.
\<close>

theorem setTarget_is_pointer_guarded_switch:
  assumes g: "gRenderer p = Some r"
  shows "(tgt = target r \<longrightarrow> vk2dRendererSetTarget K tgt p = Inr p) \<and>
     (tgt \<noteq> target r \<and>
      (tgt = VK2D_TARGET_SCREEN K \<longrightarrow>
         scImageIndex r < length (framebuffers r) \<and> scImageIndex r < length (swapchainImages r) \<and>
         cameras r \<noteq> []) \<and>
      (tgt \<noteq> VK2D_TARGET_SCREEN K \<longrightarrow> textures p tgt = Some t \<and> tex_img t = Some im) \<longrightarrow>
      (\<exists>p' r'. vk2dRendererSetTarget K tgt p = Inr p' \<and> p' \<noteq> p \<and>
         vk2dRendererSetTarget K tgt p' = Inr p' \<and>
         gRenderer p' = Some r' \<and> target r' = tgt \<and> textures p' = textures p \<and>
         targetRenderPass r' =
           (if tgt = VK2D_TARGET_SCREEN K then midFrameSwapRenderPass r
            else externalTargetRenderPass r) \<and>
         targetFrameBuffer r' =
           (if tgt = VK2D_TARGET_SCREEN K then framebuffers r ! scImageIndex r else tex_fbo t) \<and>
         targetImage r' =
           (if tgt = VK2D_TARGET_SCREEN K then swapchainImages r ! scImageIndex r else img_img im) \<and>
         filter (\<lambda>c. \<not> isTransition c) (emitted p (Inr p')) =
           [CmdEndRenderPass (commandBuffer r (scImageIndex r)),
            CmdBeginRenderPass (commandBuffer r (scImageIndex r)) (targetRenderPass r')
              (targetFrameBuffer r')
              (if tgt = VK2D_TARGET_SCREEN K then surfaceWidth r else img_width im)
              (if tgt = VK2D_TARGET_SCREEN K then surfaceHeight r else img_height im) None,
            ResetBoundPointers] \<and>
         (tgt = VK2D_TARGET_SCREEN K \<longrightarrow>
            emitted p (Inr p') =
              [CmdEndRenderPass (commandBuffer r (scImageIndex r)),
               TransitionImageLayout (targetImage r) VK_IMAGE_LAYOUT_COLOR_ATTACHMENT_OPTIMAL
                 VK_IMAGE_LAYOUT_SHADER_READ_ONLY_OPTIMAL,
               CmdBeginRenderPass (commandBuffer r (scImageIndex r)) (midFrameSwapRenderPass r)
                 (framebuffers r ! scImageIndex r) (surfaceWidth r) (surfaceHeight r) None,
               ResetBoundPointers]) \<and>
         (target r = VK2D_TARGET_SCREEN K \<longrightarrow>
            emitted p (Inr p') =
              [CmdEndRenderPass (commandBuffer r (scImageIndex r)),
               TransitionImageLayout (img_img im) VK_IMAGE_LAYOUT_SHADER_READ_ONLY_OPTIMAL
                 VK_IMAGE_LAYOUT_COLOR_ATTACHMENT_OPTIMAL,
               CmdBeginRenderPass (commandBuffer r (scImageIndex r)) (externalTargetRenderPass r)
                 (tex_fbo t) (img_width im) (img_height im) None,
               ResetBoundPointers])))"
proof (intro conjI impI)
  assume "tgt = target r"
  with g show "vk2dRendererSetTarget K tgt p = Inr p" by (rule setTarget_same)
next
  assume a: "tgt \<noteq> target r \<and>
      (tgt = VK2D_TARGET_SCREEN K \<longrightarrow>
         scImageIndex r < length (framebuffers r) \<and> scImageIndex r < length (swapchainImages r) \<and>
         cameras r \<noteq> []) \<and>
      (tgt \<noteq> VK2D_TARGET_SCREEN K \<longrightarrow> textures p tgt = Some t \<and> tex_img t = Some im)"
  then have ne: "tgt \<noteq> target r" by simp
  show "\<exists>p' r'. vk2dRendererSetTarget K tgt p = Inr p' \<and> p' \<noteq> p \<and>
         vk2dRendererSetTarget K tgt p' = Inr p' \<and>
         gRenderer p' = Some r' \<and> target r' = tgt \<and> textures p' = textures p \<and>
         targetRenderPass r' =
           (if tgt = VK2D_TARGET_SCREEN K then midFrameSwapRenderPass r
            else externalTargetRenderPass r) \<and>
         targetFrameBuffer r' =
           (if tgt = VK2D_TARGET_SCREEN K then framebuffers r ! scImageIndex r else tex_fbo t) \<and>
         targetImage r' =
           (if tgt = VK2D_TARGET_SCREEN K then swapchainImages r ! scImageIndex r else img_img im) \<and>
         filter (\<lambda>c. \<not> isTransition c) (emitted p (Inr p')) =
           [CmdEndRenderPass (commandBuffer r (scImageIndex r)),
            CmdBeginRenderPass (commandBuffer r (scImageIndex r)) (targetRenderPass r')
              (targetFrameBuffer r')
              (if tgt = VK2D_TARGET_SCREEN K then surfaceWidth r else img_width im)
              (if tgt = VK2D_TARGET_SCREEN K then surfaceHeight r else img_height im) None,
            ResetBoundPointers] \<and>
         (tgt = VK2D_TARGET_SCREEN K \<longrightarrow>
            emitted p (Inr p') =
              [CmdEndRenderPass (commandBuffer r (scImageIndex r)),
               TransitionImageLayout (targetImage r) VK_IMAGE_LAYOUT_COLOR_ATTACHMENT_OPTIMAL
                 VK_IMAGE_LAYOUT_SHADER_READ_ONLY_OPTIMAL,
               CmdBeginRenderPass (commandBuffer r (scImageIndex r)) (midFrameSwapRenderPass r)
                 (framebuffers r ! scImageIndex r) (surfaceWidth r) (surfaceHeight r) None,
               ResetBoundPointers]) \<and>
         (target r = VK2D_TARGET_SCREEN K \<longrightarrow>
            emitted p (Inr p') =
              [CmdEndRenderPass (commandBuffer r (scImageIndex r)),
               TransitionImageLayout (img_img im) VK_IMAGE_LAYOUT_SHADER_READ_ONLY_OPTIMAL
                 VK_IMAGE_LAYOUT_COLOR_ATTACHMENT_OPTIMAL,
               CmdBeginRenderPass (commandBuffer r (scImageIndex r)) (externalTargetRenderPass r)
                 (tex_fbo t) (img_width im) (img_height im) None,
               ResetBoundPointers])"
  proof (cases "tgt = VK2D_TARGET_SCREEN K")
    case True
    with a have idx: "scImageIndex r < length (framebuffers r)"
      "scImageIndex r < length (swapchainImages r)" "cameras r \<noteq> []" by simp_all
    let ?cs = "[CmdEndRenderPass (commandBuffer r (scImageIndex r)),
             TransitionImageLayout (targetImage r) VK_IMAGE_LAYOUT_COLOR_ATTACHMENT_OPTIMAL
               VK_IMAGE_LAYOUT_SHADER_READ_ONLY_OPTIMAL,
             CmdBeginRenderPass (commandBuffer r (scImageIndex r)) (midFrameSwapRenderPass r)
               (framebuffers r ! scImageIndex r) (surfaceWidth r) (surfaceHeight r) None,
             ResetBoundPointers]"
    let ?r' = "r\<lparr>target := tgt, targetRenderPass := midFrameSwapRenderPass r,
             targetFrameBuffer := framebuffers r ! scImageIndex r,
             targetImage := swapchainImages r ! scImageIndex r,
             targetUBOSet := uboSets (cameras r ! 0) (scImageIndex r)\<rparr>"
    let ?p' = "p\<lparr>world := emits ?cs (world p), gRenderer := Some ?r'\<rparr>"
    have res: "vk2dRendererSetTarget K tgt p = Inr ?p'"
      by (rule setTarget_to_screen[OF g ne True idx])
    have diff: "?p' \<noteq> p" by (rule emits_changes) simp
    have again: "vk2dRendererSetTarget K tgt ?p' = Inr ?p'"
      by (rule setTarget_same[of _ ?r']) simp_all
    have em: "emitted p (Inr ?p') = ?cs" by (rule emitted_emits)
    show ?thesis
      apply (rule exI[of _ ?p'], rule exI[of _ ?r'])
      using res diff again True ne em by simp
  next
    case False
    with a have tex: "textures p tgt = Some t" "tex_img t = Some im" by simp_all
    let ?cs = "[CmdEndRenderPass (commandBuffer r (scImageIndex r)),
             TransitionImageLayout (img_img im) VK_IMAGE_LAYOUT_SHADER_READ_ONLY_OPTIMAL
               VK_IMAGE_LAYOUT_COLOR_ATTACHMENT_OPTIMAL,
             CmdBeginRenderPass (commandBuffer r (scImageIndex r)) (externalTargetRenderPass r)
               (tex_fbo t) (img_width im) (img_height im) None,
             ResetBoundPointers]"
    let ?r' = "r\<lparr>target := tgt, targetRenderPass := externalTargetRenderPass r,
             targetFrameBuffer := tex_fbo t, targetImage := img_img im,
             targetUBOSet := tex_uboSet t\<rparr>"
    let ?p' = "p\<lparr>world := emits ?cs (world p), gRenderer := Some ?r'\<rparr>"
    have res: "vk2dRendererSetTarget K tgt p = Inr ?p'"
      by (rule setTarget_to_texture[OF g ne False tex])
    have diff: "?p' \<noteq> p" by (rule emits_changes) simp
    have again: "vk2dRendererSetTarget K tgt ?p' = Inr ?p'"
      by (rule setTarget_same[of _ ?r']) simp_all
    have em: "emitted p (Inr ?p') = ?cs" by (rule emitted_emits)
    show ?thesis
      apply (rule exI[of _ ?p'], rule exI[of _ ?r'])
      using res diff again False em by simp
  qed
qed

theorem setTarget_is_pointer_guarded_switch_witness:
  "gRenderer activeProgram = Some activeRenderer \<and>
   target activeRenderer = VK2D_TARGET_SCREEN exampleK \<and>
   textures activeProgram 5 = textures activeProgram 6 \<and>
   vk2dRendererSetTarget exampleK 0 activeProgram = Inr activeProgram \<and>
   (\<exists>p1. vk2dRendererSetTarget exampleK 5 activeProgram = Inr p1 \<and> p1 \<noteq> activeProgram \<and>
      emitted activeProgram (Inr p1) =
        [CmdEndRenderPass 61,
         TransitionImageLayout 91 VK_IMAGE_LAYOUT_SHADER_READ_ONLY_OPTIMAL
           VK_IMAGE_LAYOUT_COLOR_ATTACHMENT_OPTIMAL,
         CmdBeginRenderPass 61 72 90 64 64 None, ResetBoundPointers] \<and>
      vk2dRendererSetTarget exampleK 5 p1 = Inr p1 \<and>
      (\<exists>p2. vk2dRendererSetTarget exampleK 6 p1 = Inr p2 \<and> p2 \<noteq> p1) \<and>
      (\<exists>p3. vk2dRendererSetTarget exampleK 0 p1 = Inr p3 \<and> p3 \<noteq> p1 \<and>
         emitted p1 (Inr p3) =
           [CmdEndRenderPass 61,
            TransitionImageLayout 91 VK_IMAGE_LAYOUT_COLOR_ATTACHMENT_OPTIMAL
              VK_IMAGE_LAYOUT_SHADER_READ_ONLY_OPTIMAL,
            CmdBeginRenderPass 61 71 22 800 600 None, ResetBoundPointers]))"
proof -
  let ?im = "\<lparr>img_img = 91, img_width = 64, img_height = 64, img_set = 93\<rparr>"
  let ?r1 = "activeRenderer\<lparr>target := 5, targetRenderPass := 72,
             targetFrameBuffer := 90, targetImage := 91, targetUBOSet := 92\<rparr>"
  let ?p1 = "activeProgram\<lparr>world := emits
            [CmdEndRenderPass 61,
             TransitionImageLayout 91 VK_IMAGE_LAYOUT_SHADER_READ_ONLY_OPTIMAL
               VK_IMAGE_LAYOUT_COLOR_ATTACHMENT_OPTIMAL,
             CmdBeginRenderPass 61 72 90 64 64 None, ResetBoundPointers] exampleWorld,
          gRenderer := Some ?r1\<rparr>"
  have g: "gRenderer activeProgram = Some activeRenderer" by (simp add: activeProgram_def)
  have scr: "target activeRenderer = VK2D_TARGET_SCREEN exampleK" by (simp add: active_defs)
  have tx: "textures activeProgram 5 = textures activeProgram 6" by (simp add: active_defs)
  have t5: "textures activeProgram 5 = Some exampleTexture" "tex_img exampleTexture = Some ?im"
    by (simp_all add: active_defs)
  have ne5: "5 \<noteq> target activeRenderer" "5 \<noteq> VK2D_TARGET_SCREEN exampleK"
    by (simp_all add: active_defs)
  have a: "vk2dRendererSetTarget exampleK 0 activeProgram = Inr activeProgram"
    using setTarget_is_pointer_guarded_switch[OF g, of 0 exampleK] scr
    by (simp add: exampleK_def)
  have first: "vk2dRendererSetTarget exampleK 5 activeProgram = Inr ?p1"
    by (rule example_setTarget_texture)
  from setTarget_is_pointer_guarded_switch[OF g, of 5 exampleK exampleTexture ?im] ne5 t5 scr first
  have b: "?p1 \<noteq> activeProgram \<and> vk2dRendererSetTarget exampleK 5 ?p1 = Inr ?p1 \<and>
      emitted activeProgram (Inr ?p1) =
        [CmdEndRenderPass 61,
         TransitionImageLayout 91 VK_IMAGE_LAYOUT_SHADER_READ_ONLY_OPTIMAL
           VK_IMAGE_LAYOUT_COLOR_ATTACHMENT_OPTIMAL,
         CmdBeginRenderPass 61 72 90 64 64 None, ResetBoundPointers]"
    by (auto simp: active_defs)
  have g1: "gRenderer ?p1 = Some ?r1" by simp
  have t6: "textures ?p1 6 = Some exampleTexture" by (simp add: active_defs)
  have ne6: "6 \<noteq> target ?r1" "6 \<noteq> VK2D_TARGET_SCREEN exampleK" by (simp_all add: active_defs)
  from setTarget_is_pointer_guarded_switch[OF g1, of 6 exampleK exampleTexture ?im] ne6 t6 t5(2)
  have c: "\<exists>p2. vk2dRendererSetTarget exampleK 6 ?p1 = Inr p2 \<and> p2 \<noteq> ?p1"
    by auto
  have ne0: "0 \<noteq> target ?r1" "0 = VK2D_TARGET_SCREEN exampleK" by (simp_all add: active_defs)
  have idx: "scImageIndex ?r1 < length (framebuffers ?r1)"
    "scImageIndex ?r1 < length (swapchainImages ?r1)" "cameras ?r1 \<noteq> []"
    by (simp_all add: active_defs)
  from setTarget_is_pointer_guarded_switch[OF g1, of 0 exampleK exampleTexture ?im] ne0 idx
  obtain p3 where d0: "vk2dRendererSetTarget exampleK 0 ?p1 = Inr p3" "p3 \<noteq> ?p1"
    "emitted ?p1 (Inr p3) =
              [CmdEndRenderPass (commandBuffer ?r1 (scImageIndex ?r1)),
               TransitionImageLayout (targetImage ?r1) VK_IMAGE_LAYOUT_COLOR_ATTACHMENT_OPTIMAL
                 VK_IMAGE_LAYOUT_SHADER_READ_ONLY_OPTIMAL,
               CmdBeginRenderPass (commandBuffer ?r1 (scImageIndex ?r1)) (midFrameSwapRenderPass ?r1)
                 (framebuffers ?r1 ! scImageIndex ?r1) (surfaceWidth ?r1) (surfaceHeight ?r1) None,
               ResetBoundPointers]"
    by auto
  have d: "\<exists>p3. vk2dRendererSetTarget exampleK 0 ?p1 = Inr p3 \<and> p3 \<noteq> ?p1 \<and>
         emitted ?p1 (Inr p3) =
           [CmdEndRenderPass 61,
            TransitionImageLayout 91 VK_IMAGE_LAYOUT_COLOR_ATTACHMENT_OPTIMAL
              VK_IMAGE_LAYOUT_SHADER_READ_ONLY_OPTIMAL,
            CmdBeginRenderPass 61 71 22 800 600 None, ResetBoundPointers]"
    using d0 by (auto simp: active_defs)
  show ?thesis
    using g scr tx a first b c d by blast
qed

text \<open>
  A switch from the screen to a texture transitions the layout of one image only, the
  texture's image 91; the outgoing image 12 is not transitioned.
\<close>

theorem setTarget_two_transitions_counterexample:
  "target activeRenderer = VK2D_TARGET_SCREEN exampleK \<and> targetImage activeRenderer = 12 \<and>
   transitionedImages (emitted activeProgram (vk2dRendererSetTarget exampleK 5 activeProgram)) = [91]"
  by (simp add: example_setTarget_texture emitted_def)
    (simp add: active_defs emits_def)

text \<open>
  Claim C5. \<^verbatim>\<open>vk2dRendererEndFrame\<close> on an active frame of a well-formed renderer,
  whose window is eventually not minimised, returns. It rebuilds the swapchain if and
  only if the presentation reported out of date or suboptimal for the swapchain, or
  the presentation call returned out of date, or \<^verbatim>\<open>resetSwapchain\<close> was set. When it
  rebuilds, the results of the presentation are not passed to \<^verbatim>\<open>vk2dErrorCheck\<close> and
  the flag is cleared; otherwise both results are checked and the flag is as before.
  In both cases the frame slot index advances by one modulo
  \<^verbatim>\<open>VK2D_MAX_FRAMES_IN_FLIGHT\<close> and the frame is no longer active.
\<close>

theorem endFrame_rebuilds_when_needed_and_advances:
  assumes g: "gRenderer p = Some r" and active: "procedStartFrame r"
    and wf: "wellFormed K r" and env: "False \<in> set (windowMinimized e)"
  shows "\<exists>p' r'. vk2dRendererEndFrame K e p = Inr p' \<and> gRenderer p' = Some r' \<and>
     (Create Swapchain \<in> set (emitted p (Inr p')) \<longleftrightarrow>
        presentResult e = VK_ERROR_OUT_OF_DATE_KHR \<or> presentResult e = VK_SUBOPTIMAL_KHR \<or>
        resetSwapchain r \<or> queuePresentResult e = VK_ERROR_OUT_OF_DATE_KHR) \<and>
     (if presentResult e = VK_ERROR_OUT_OF_DATE_KHR \<or> presentResult e = VK_SUBOPTIMAL_KHR \<or>
         resetSwapchain r \<or> queuePresentResult e = VK_ERROR_OUT_OF_DATE_KHR
      then (\<exists>n. emitted p (Inr p') =
                  presentCalls e r @ replicate n PumpEvents @ rebuildCalls K r) \<and>
           \<not> resetSwapchain r'
      else emitted p (Inr p') =
             presentCalls e r @ [ErrorCheck (presentResult e), ErrorCheck (queuePresentResult e)] \<and>
           resetSwapchain r' = resetSwapchain r) \<and>
     currentFrame r' = (currentFrame r + 1) mod VK2D_MAX_FRAMES_IN_FLIGHT K \<and>
     currentFrame r' < VK2D_MAX_FRAMES_IN_FLIGHT K \<and>
     \<not> procedStartFrame r'"
proof -
  from endFrame_returns[OF g wf env] obtain p' where res: "vk2dRendererEndFrame K e p = Inr p'"
    by blast
  show ?thesis
  proof (cases "rebuildNeeded e r")
    case True
    from endFrame_rebuild[OF g active res True] obtain r' n where
      s: "gRenderer p' = Some r'"
        "world p' = emits (presentCalls e r @ replicate n PumpEvents @ rebuildCalls K r) (world p)"
        "0 < VK2D_MAX_FRAMES_IN_FLIGHT K"
        "currentFrame r' = (currentFrame r + 1) mod VK2D_MAX_FRAMES_IN_FLIGHT K"
        "\<not> procedStartFrame r'" "\<not> resetSwapchain r'"
      by blast
    have em: "emitted p (Inr p') = presentCalls e r @ replicate n PumpEvents @ rebuildCalls K r"
      using s(2) by (simp add: emitted_Inr)
    have "Create Swapchain \<in> set (emitted p (Inr p'))"
      using em rebuildCalls_has_swapchain by simp
    moreover have "\<exists>n. emitted p (Inr p') =
                  presentCalls e r @ replicate n PumpEvents @ rebuildCalls K r"
      using em by blast
    ultimately show ?thesis
      apply (intro exI[of _ p'] exI[of _ r'])
      using res s True by (simp add: rebuildNeeded_def)
  next
    case False
    from endFrame_plain[OF g active res False] obtain r' where
      s: "gRenderer p' = Some r'"
        "world p' = emits (presentCalls e r @
                  [ErrorCheck (presentResult e), ErrorCheck (queuePresentResult e)]) (world p)"
        "0 < VK2D_MAX_FRAMES_IN_FLIGHT K"
        "currentFrame r' = (currentFrame r + 1) mod VK2D_MAX_FRAMES_IN_FLIGHT K"
        "\<not> procedStartFrame r'" "resetSwapchain r' = resetSwapchain r"
      by blast
    have em: "emitted p (Inr p') = presentCalls e r @
                  [ErrorCheck (presentResult e), ErrorCheck (queuePresentResult e)]"
      using s(2) by (simp add: emitted_Inr)
    have "Create Swapchain \<notin> set (emitted p (Inr p'))"
      using em presentCalls_no_create by simp
    then show ?thesis
      apply (intro exI[of _ p'] exI[of _ r'])
      using res s False em by (simp add: rebuildNeeded_def)
  qed
qed

theorem endFrame_rebuilds_when_needed_and_advances_witness:
  "gRenderer activeProgram = Some activeRenderer \<and> procedStartFrame activeRenderer \<and>
   wellFormed exampleK activeRenderer \<and>
   False \<in> set (windowMinimized (exampleEnv\<lparr>presentResult := VK_SUBOPTIMAL_KHR\<rparr>)) \<and>
   (\<exists>p' r'. vk2dRendererEndFrame exampleK (exampleEnv\<lparr>presentResult := VK_SUBOPTIMAL_KHR\<rparr>)
               activeProgram = Inr p' \<and>
      gRenderer p' = Some r' \<and>
      Create Swapchain \<in> set (emitted activeProgram (Inr p')) \<and>
      \<not> resetSwapchain r' \<and> currentFrame r' = 1)"
proof -
  let ?e = "exampleEnv\<lparr>presentResult := VK_SUBOPTIMAL_KHR\<rparr>"
  have g: "gRenderer activeProgram = Some activeRenderer" by (simp add: activeProgram_def)
  have a: "procedStartFrame activeRenderer" by (simp add: activeRenderer_def)
  have w: "False \<in> set (windowMinimized ?e)" by (simp add: exampleEnv_def)
  have sub: "presentResult ?e = VK_SUBOPTIMAL_KHR" by simp
  have cf: "(currentFrame activeRenderer + 1) mod VK2D_MAX_FRAMES_IN_FLIGHT exampleK = 1"
    by (simp add: activeRenderer_def exampleRenderer_def exampleK_def)
  from endFrame_rebuilds_when_needed_and_advances[OF g a example_active_wellFormed w]
  obtain p' r' where
    "vk2dRendererEndFrame exampleK ?e activeProgram = Inr p'" "gRenderer p' = Some r'"
    "Create Swapchain \<in> set (emitted activeProgram (Inr p'))"
    "\<not> resetSwapchain r'" "currentFrame r' = 1"
    using sub cf by auto
  then show ?thesis using g a example_active_wellFormed w by blast
qed

text \<open>
  Claim C6, as the later file implements it. While the singleton is null, each of
  wait, resetSwapchain, getConfig, setConfig, startFrame, endFrame, getDevice,
  setTarget, setColourMod, getColourMod, setBlendMode, getBlendMode, setCamera,
  getCamera, setViewport, getViewport, setTextureCamera, lockCameras, unlockCameras,
  getAverageFrameTime, clear, drawRectangle, drawRectangleOutline, drawCircle,
  drawCircleOutline, drawLine, drawShader, drawTexture and drawPolygon returns,
  having logged \<^verbatim>\<open>Renderer is not initialized\<close> once and changed nothing else; the
  getters return the configuration with every member zero, the null device,
  \<^verbatim>\<open>bm_None\<close>, the camera specification with every member zero and 0 for the average
  frame time, and leave the caller's destination untouched. \<^verbatim>\<open>vk2dRendererQuit\<close> and
  \<^verbatim>\<open>vk2dRendererGetPointer\<close> change nothing and log nothing.
\<close>

theorem uninitialized_calls_are_reported:
  assumes n: "gRenderer p = None"
  shows "vk2dRendererWait p = Inr (notInitialized p) \<and>
         vk2dRendererResetSwapchain p = notInitialized p \<and>
         vk2dRendererGetConfig p = (zeroConfig, notInitialized p) \<and>
         vk2dRendererSetConfig cfg p = Inr (notInitialized p) \<and>
         vk2dRendererStartFrame K e clearColour p = Inr (notInitialized p) \<and>
         vk2dRendererEndFrame K e p = Inr (notInitialized p) \<and>
         vk2dRendererGetDevice p = (None, notInitialized p) \<and>
         vk2dRendererSetTarget K tgt p = Inr (notInitialized p) \<and>
         vk2dRendererSetColourMod colourMod p = notInitialized p \<and>
         vk2dRendererGetColourMod dst p = (dst, notInitialized p) \<and>
         vk2dRendererSetBlendMode mode p = notInitialized p \<and>
         vk2dRendererGetBlendMode K p = (bm_None K, notInitialized p) \<and>
         vk2dRendererSetCamera K camera p = Inr (notInitialized p) \<and>
         vk2dRendererGetCamera p = (zeroCameraSpec, notInitialized p) \<and>
         vk2dRendererSetViewport x y w h p = notInitialized p \<and>
         vk2dRendererGetViewport dst p = (dst, notInitialized p) \<and>
         vk2dRendererSetTextureCamera b p = notInitialized p \<and>
         vk2dRendererLockCameras cam p = notInitialized p \<and>
         vk2dRendererUnlockCameras K p = notInitialized p \<and>
         vk2dRendererGetAverageFrameTime p = (0, notInitialized p) \<and>
         vk2dRendererClear I K p = Inr (notInitialized p) \<and>
         vk2dRendererDrawRectangle I x y w h rot ox oy p = Inr (notInitialized p) \<and>
         vk2dRendererDrawRectangleOutline I x y w h rot ox oy lineWidth p =
           Inr (notInitialized p) \<and>
         vk2dRendererDrawCircle I x y rad p = Inr (notInitialized p) \<and>
         vk2dRendererDrawCircleOutline I x y rad lineWidth p = Inr (notInitialized p) \<and>
         vk2dRendererDrawLine I x y x2 y2 p = Inr (notInitialized p) \<and>
         vk2dRendererDrawShader I shader tex x y xscale yscale rot originX originY
           xInTex yInTex texWidth texHeight p = Inr (notInitialized p) \<and>
         vk2dRendererDrawTexture I tex x y xscale yscale rot originX originY
           xInTex yInTex texWidth texHeight p = Inr (notInitialized p) \<and>
         vk2dRendererDrawPolygon I polygon x y filled lineWidth xscale yscale rot originX originY p =
           Inr (notInitialized p) \<and>
         zeroConfig = \<lparr>msaa = 0, screenMode = 0, filterMode = 0\<rparr> \<and>
         xOnScreen zeroCameraSpec = 0 \<and> yOnScreen zeroCameraSpec = 0 \<and>
         wOnScreen zeroCameraSpec = 0 \<and> hOnScreen zeroCameraSpec = 0 \<and>
         otherMembers zeroCameraSpec = (\<lambda>i. 0) \<and>
         notInitialized p =
           p\<lparr>world := (world p)\<lparr>calls := calls (world p) @
                                      [LogMessage ''Renderer is not initialized'']\<rparr>\<rparr> \<and>
         vk2dRendererQuit p = Inr p \<and>
         vk2dRendererGetPointer p = (None, p)"
  using n
  by (simp add: vk2dRendererWait_def vk2dRendererResetSwapchain_def vk2dRendererGetConfig_def
      vk2dRendererSetConfig_def vk2dRendererStartFrame_def vk2dRendererEndFrame_def
      vk2dRendererGetDevice_def vk2dRendererSetTarget_def vk2dRendererSetColourMod_def
      vk2dRendererGetColourMod_def vk2dRendererSetBlendMode_def vk2dRendererGetBlendMode_def
      vk2dRendererSetCamera_def vk2dRendererGetCamera_def vk2dRendererSetViewport_def
      vk2dRendererGetViewport_def vk2dRendererSetTextureCamera_def vk2dRendererLockCameras_def
      vk2dRendererUnlockCameras_def vk2dRendererGetAverageFrameTime_def
      vk2dRendererClear_def vk2dRendererDrawRectangle_def vk2dRendererDrawRectangleOutline_def
      vk2dRendererDrawCircle_def vk2dRendererDrawCircleOutline_def vk2dRendererDrawLine_def
      vk2dRendererDrawShader_def vk2dRendererDrawTexture_def vk2dRendererDrawPolygon_def
      zeroConfig_def zeroCameraSpec_def
      vk2dRendererQuit_def vk2dRendererGetPointer_def notInitialized_def say_def emit_def)

theorem uninitialized_calls_are_reported_witness:
  "gRenderer uninitializedProgram = None \<and>
   vk2dRendererStartFrame exampleK exampleEnv (0, 0, 0, 1) uninitializedProgram =
     Inr (notInitialized uninitializedProgram) \<and>
   vk2dRendererGetConfig uninitializedProgram = (zeroConfig, notInitialized uninitializedProgram) \<and>
   vk2dRendererGetAverageFrameTime uninitializedProgram = (0, notInitialized uninitializedProgram) \<and>
   vk2dRendererDrawTexture exampleInternals 5 0 0 1 1 0 0 0 0 0 64 64 uninitializedProgram =
     Inr (notInitialized uninitializedProgram) \<and>
   vk2dRendererClear exampleInternals exampleK uninitializedProgram =
     Inr (notInitialized uninitializedProgram) \<and>
   gRenderer (notInitialized uninitializedProgram) = None \<and>
   calls (world (notInitialized uninitializedProgram)) = [LogMessage ''Renderer is not initialized'']"
proof -
  have n: "gRenderer uninitializedProgram = None" by (simp add: uninitializedProgram_def)
  have c: "calls (world (notInitialized uninitializedProgram)) =
      [LogMessage ''Renderer is not initialized'']"
    by (simp add: notInitialized_def say_def uninitializedProgram_def exampleProgram_def
        exampleWorld_def)
  have g: "gRenderer (notInitialized uninitializedProgram) = None"
    by (simp add: notInitialized_def say_def uninitializedProgram_def)
  note all = uninitialized_calls_are_reported[OF n,
      where K = exampleK and e = exampleEnv and clearColour = "(0, 0, 0, 1)" and I = exampleInternals
        and tex = 5 and x = 0 and y = 0 and xscale = 1 and yscale = 1 and rot = 0 and originX = 0
        and originY = 0 and xInTex = 0 and yInTex = 0 and texWidth = 64 and texHeight = 64]
  from all show ?thesis using n c g by simp
qed

text \<open>
  The earlier file's \<^verbatim>\<open>vk2dRendererWait\<close> reads \<^verbatim>\<open>gRenderer->ld\<close> without a test, and
  the later file's \<^verbatim>\<open>vk2dRendererQuit\<close> and \<^verbatim>\<open>vk2dRendererGetPointer\<close> log nothing for
  a null singleton.
\<close>

theorem unguarded_wait_counterexample:
  "gRenderer uninitializedProgram = None \<and>
   vk2dRendererWait_A uninitializedProgram = Inl NullDereference \<and>
   emitted uninitializedProgram (vk2dRendererQuit uninitializedProgram) = [] \<and>
   vk2dRendererGetPointer uninitializedProgram = (None, uninitializedProgram)"
  by (simp add: vk2dRendererWait_A_def vk2dRendererQuit_def vk2dRendererGetPointer_def
      emitted_def uninitializedProgram_def)

text \<open>
  Claim C7. \<^verbatim>\<open>vk2dRendererSetConfig\<close> on an initialised renderer returns (the physical
  device being there), leaves \<^verbatim>\<open>config\<close> as it was, stores the requested
  configuration in \<^verbatim>\<open>newConfig\<close> with \<^verbatim>\<open>msaa\<close> clamped to the maximum of the physical
  device, and sets \<^verbatim>\<open>resetSwapchain\<close>. \<^verbatim>\<open>vk2dRendererStartFrame\<close> and
  \<^verbatim>\<open>vk2dRendererSetTarget\<close> change none of the three. \<^verbatim>\<open>vk2dRendererEndFrame\<close>, which
  returns on a well-formed renderer whose window is eventually not minimised, changes
  \<^verbatim>\<open>config\<close> only when it ends an active frame and rebuilds the swapchain; then
  \<^verbatim>\<open>config\<close> is the staged configuration, with its present mode when that is among the
  \<^verbatim>\<open>presentModeCount\<close> modes the surface offers and with FIFO otherwise.
\<close>

theorem config_is_staged_until_rebuild:
  assumes g: "gRenderer p = Some r"
  shows "(\<forall>p'. vk2dRendererSetConfig cfg p = Inr p' \<longrightarrow>
            (\<exists>r' maxMSAA. gRenderer p' = Some r' \<and>
               vk2dPhysicalDeviceGetMSAA (pd r) = Inr maxMSAA \<and>
               config r' = config r \<and>
               newConfig r' = cfg\<lparr>msaa := min (msaa cfg) maxMSAA\<rparr> \<and>
               resetSwapchain r')) \<and>
         (pd r \<noteq> None \<longrightarrow> (\<exists>p'. vk2dRendererSetConfig cfg p = Inr p')) \<and>
         (\<forall>p' r'. vk2dRendererStartFrame K e clearColour p = Inr p' \<and> gRenderer p' = Some r' \<longrightarrow>
            config r' = config r \<and> newConfig r' = newConfig r \<and>
            resetSwapchain r' = resetSwapchain r) \<and>
         (\<forall>p' r'. vk2dRendererSetTarget K tgt p = Inr p' \<and> gRenderer p' = Some r' \<longrightarrow>
            config r' = config r \<and> newConfig r' = newConfig r \<and>
            resetSwapchain r' = resetSwapchain r) \<and>
         (\<forall>p' r'. vk2dRendererEndFrame K e p = Inr p' \<and> gRenderer p' = Some r' \<longrightarrow>
            newConfig r' = newConfig r \<and>
            (if procedStartFrame r \<and>
                (presentResult e = VK_ERROR_OUT_OF_DATE_KHR \<or>
                 presentResult e = VK_SUBOPTIMAL_KHR \<or> resetSwapchain r \<or>
                 queuePresentResult e = VK_ERROR_OUT_OF_DATE_KHR)
             then config r' =
                    (newConfig r)\<lparr>screenMode :=
                      (if screenMode (newConfig r) \<in>
                            set (take (presentModeCount r) (presentModes r))
                       then screenMode (newConfig r) else VK_PRESENT_MODE_FIFO_KHR)\<rparr> \<and>
                  Create Swapchain \<in> set (emitted p (Inr p'))
             else config r' = config r)) \<and>
         (wellFormed K r \<and> False \<in> set (windowMinimized e) \<longrightarrow>
            (\<exists>p' r'. vk2dRendererEndFrame K e p = Inr p' \<and> gRenderer p' = Some r'))"
proof (intro conjI allI impI)
  fix p' assume "vk2dRendererSetConfig cfg p = Inr p'"
  with g show "\<exists>r' maxMSAA. gRenderer p' = Some r' \<and>
               vk2dPhysicalDeviceGetMSAA (pd r) = Inr maxMSAA \<and>
               config r' = config r \<and>
               newConfig r' = cfg\<lparr>msaa := min (msaa cfg) maxMSAA\<rparr> \<and>
               resetSwapchain r'"
    by (auto simp: vk2dRendererSetConfig_def vk2dRendererResetSwapchain_def bindF_eq_Inr min_def)
next
  assume "pd r \<noteq> None"
  with g show "\<exists>p'. vk2dRendererSetConfig cfg p = Inr p'"
    by (auto simp: vk2dRendererSetConfig_def vk2dPhysicalDeviceGetMSAA_def)
next
  fix p' r' assume a: "vk2dRendererStartFrame K e clearColour p = Inr p' \<and> gRenderer p' = Some r'"
  have "config r' = config r \<and> newConfig r' = newConfig r \<and> resetSwapchain r' = resetSwapchain r"
  proof (cases "procedStartFrame r")
    case True
    with g a show ?thesis by (auto simp: vk2dRendererStartFrame_def)
  next
    case False
    from startFrame_result[OF g False conjunct1[OF a]] conjunct2[OF a] show ?thesis by auto
  qed
  then show "config r' = config r" "newConfig r' = newConfig r"
    "resetSwapchain r' = resetSwapchain r" by simp_all
next
  fix p' r' assume a: "vk2dRendererSetTarget K tgt p = Inr p' \<and> gRenderer p' = Some r'"
  have "config r' = config r \<and> newConfig r' = newConfig r \<and> resetSwapchain r' = resetSwapchain r"
  proof (cases "tgt = target r")
    case True
    with g a show ?thesis by (auto simp: vk2dRendererSetTarget_def)
  next
    case False
    from setTarget_switch[OF g False conjunct1[OF a]] conjunct2[OF a] show ?thesis by auto
  qed
  then show "config r' = config r" "newConfig r' = newConfig r"
    "resetSwapchain r' = resetSwapchain r" by simp_all
next
  fix p' r' assume a: "vk2dRendererEndFrame K e p = Inr p' \<and> gRenderer p' = Some r'"
  then have res: "vk2dRendererEndFrame K e p = Inr p'" and g': "gRenderer p' = Some r'" by simp_all
  have both: "newConfig r' = newConfig r \<and>
            (if procedStartFrame r \<and>
                (presentResult e = VK_ERROR_OUT_OF_DATE_KHR \<or>
                 presentResult e = VK_SUBOPTIMAL_KHR \<or> resetSwapchain r \<or>
                 queuePresentResult e = VK_ERROR_OUT_OF_DATE_KHR)
             then config r' =
                    (newConfig r)\<lparr>screenMode :=
                      (if screenMode (newConfig r) \<in>
                            set (take (presentModeCount r) (presentModes r))
                       then screenMode (newConfig r) else VK_PRESENT_MODE_FIFO_KHR)\<rparr> \<and>
                  Create Swapchain \<in> set (emitted p (Inr p'))
             else config r' = config r)"
  proof (cases "procedStartFrame r")
    case False
    with g res g' show ?thesis by (auto simp: vk2dRendererEndFrame_def)
  next
    case True
    show ?thesis
    proof (cases "rebuildNeeded e r")
      case need: True
      from endFrame_rebuild[OF g True res need] g' obtain n where
        s: "world p' = emits (presentCalls e r @ replicate n PumpEvents @ rebuildCalls K r) (world p)"
          "newConfig r' = newConfig r"
          "config r' = (newConfig r)\<lparr>screenMode := screenMode (config r')\<rparr>"
          "screenMode (config r') =
             (if screenMode (newConfig r) \<in> set (take (presentModeCount r) (presentModes r))
              then screenMode (newConfig r) else VK_PRESENT_MODE_FIFO_KHR)"
        by auto
      have "Create Swapchain \<in> set (emitted p (Inr p'))"
        using s(1) rebuildCalls_has_swapchain by (simp add: emitted_Inr)
      moreover have "config r' =
                    (newConfig r)\<lparr>screenMode :=
                      (if screenMode (newConfig r) \<in>
                            set (take (presentModeCount r) (presentModes r))
                       then screenMode (newConfig r) else VK_PRESENT_MODE_FIFO_KHR)\<rparr>"
        using s(3) by (simp only: s(4)[symmetric])
      ultimately show ?thesis using s(2) True need by (simp add: rebuildNeeded_def)
    next
      case False
      from endFrame_plain[OF g True res False] g' have
        "newConfig r' = newConfig r" "config r' = config r" by auto
      with True False show ?thesis by (simp add: rebuildNeeded_def)
    qed
  qed
  from both show "newConfig r' = newConfig r" by simp
  from both show "if procedStartFrame r \<and>
                (presentResult e = VK_ERROR_OUT_OF_DATE_KHR \<or>
                 presentResult e = VK_SUBOPTIMAL_KHR \<or> resetSwapchain r \<or>
                 queuePresentResult e = VK_ERROR_OUT_OF_DATE_KHR)
             then config r' =
                    (newConfig r)\<lparr>screenMode :=
                      (if screenMode (newConfig r) \<in>
                            set (take (presentModeCount r) (presentModes r))
                       then screenMode (newConfig r) else VK_PRESENT_MODE_FIFO_KHR)\<rparr> \<and>
                  Create Swapchain \<in> set (emitted p (Inr p'))
             else config r' = config r" by simp
next
  assume a: "wellFormed K r \<and> False \<in> set (windowMinimized e)"
  from endFrame_returns[OF g conjunct1[OF a] conjunct2[OF a]] obtain p' where
    res: "vk2dRendererEndFrame K e p = Inr p'" by blast
  from endFrame_result[OF g res] res
  show "\<exists>p' r'. vk2dRendererEndFrame K e p = Inr p' \<and> gRenderer p' = Some r'" by blast
qed

theorem config_is_staged_until_rebuild_witness:
  "gRenderer activeProgram = Some activeRenderer \<and> procedStartFrame activeRenderer \<and>
   config activeRenderer = \<lparr>msaa = 1, screenMode = 2, filterMode = 0\<rparr> \<and>
   (\<exists>p1 r1 p2 r2.
      vk2dRendererSetConfig stagedConfig activeProgram = Inr p1 \<and> gRenderer p1 = Some r1 \<and>
      config r1 = config activeRenderer \<and>
      newConfig r1 = \<lparr>msaa = 4, screenMode = 0, filterMode = 1\<rparr> \<and> resetSwapchain r1 \<and>
      vk2dRendererEndFrame exampleK exampleEnv p1 = Inr p2 \<and> gRenderer p2 = Some r2 \<and>
      config r2 = \<lparr>msaa = 4, screenMode = 0, filterMode = 1\<rparr>) \<and>
   (\<exists>p1 r1 p2 r2.
      vk2dRendererSetConfig unofferedConfig activeProgram = Inr p1 \<and> gRenderer p1 = Some r1 \<and>
      config r1 = config activeRenderer \<and>
      newConfig r1 = \<lparr>msaa = 2, screenMode = 1, filterMode = 0\<rparr> \<and>
      vk2dRendererEndFrame exampleK exampleEnv p1 = Inr p2 \<and> gRenderer p2 = Some r2 \<and>
      config r2 = \<lparr>msaa = 2, screenMode = VK_PRESENT_MODE_FIFO_KHR, filterMode = 0\<rparr>)"
proof -
  have g: "gRenderer activeProgram = Some activeRenderer" by (simp add: activeProgram_def)
  have act: "procedStartFrame activeRenderer" by (simp add: activeRenderer_def)
  have c0: "config activeRenderer = \<lparr>msaa = 1, screenMode = 2, filterMode = 0\<rparr>"
    by (simp add: activeRenderer_def exampleRenderer_def)
  have m: "vk2dPhysicalDeviceGetMSAA (pd activeRenderer) = Inr 4"
    by (simp add: vk2dPhysicalDeviceGetMSAA_def activeRenderer_def exampleRenderer_def)
  have w: "False \<in> set (windowMinimized exampleEnv)" by (simp add: exampleEnv_def)
  have staged: "\<exists>p1 r1 p2 r2.
      vk2dRendererSetConfig cfg activeProgram = Inr p1 \<and> gRenderer p1 = Some r1 \<and>
      config r1 = config activeRenderer \<and>
      newConfig r1 = cfg\<lparr>msaa := min (msaa cfg) 4\<rparr> \<and> resetSwapchain r1 \<and>
      vk2dRendererEndFrame exampleK exampleEnv p1 = Inr p2 \<and> gRenderer p2 = Some r2 \<and>
      config r2 = cfg\<lparr>msaa := min (msaa cfg) 4,
         screenMode := (if screenMode cfg \<in> {2, 0} then screenMode cfg
                        else VK_PRESENT_MODE_FIFO_KHR)\<rparr>" for cfg
  proof -
    let ?r1 = "activeRenderer\<lparr>newConfig := cfg\<lparr>msaa := min (msaa cfg) 4\<rparr>,
                 resetSwapchain := True\<rparr>"
    let ?p1 = "activeProgram\<lparr>gRenderer := Some ?r1\<rparr>"
    note first = config_is_staged_until_rebuild[OF g, of cfg exampleK exampleEnv "(0, 0, 0, 1)" 0]
    have s: "vk2dRendererSetConfig cfg activeProgram = Inr ?p1"
      using g m by (simp add: vk2dRendererSetConfig_def vk2dRendererResetSwapchain_def min_def)
    from first s m have kept: "config ?r1 = config activeRenderer" by simp
    have g1: "gRenderer ?p1 = Some ?r1" by simp
    have wf1: "wellFormed exampleK ?r1"
      using example_active_wellFormed by (simp add: wellFormed_def)
    note second = config_is_staged_until_rebuild[OF g1, of cfg exampleK exampleEnv "(0, 0, 0, 1)" 0]
    from second wf1 w obtain p2 r2 where
      e: "vk2dRendererEndFrame exampleK exampleEnv ?p1 = Inr p2" "gRenderer p2 = Some r2"
      by blast
    have modes: "set (take (presentModeCount ?r1) (presentModes ?r1)) = {2, 0}"
      by (simp add: activeRenderer_def exampleRenderer_def)
    have "procedStartFrame ?r1 \<and> resetSwapchain ?r1" using act by simp
    with second e have
      "config r2 = (newConfig ?r1)\<lparr>screenMode :=
          (if screenMode (newConfig ?r1) \<in> set (take (presentModeCount ?r1) (presentModes ?r1))
           then screenMode (newConfig ?r1) else VK_PRESENT_MODE_FIFO_KHR)\<rparr>"
      by simp
    then have c2: "config r2 = cfg\<lparr>msaa := min (msaa cfg) 4,
         screenMode := (if screenMode cfg \<in> {2, 0} then screenMode cfg
                        else VK_PRESENT_MODE_FIFO_KHR)\<rparr>"
      by (simp only: modes) simp
    show ?thesis
      apply (rule exI[of _ ?p1], rule exI[of _ ?r1], rule exI[of _ p2], rule exI[of _ r2])
      using s g1 kept e c2 by simp
  qed
  from staged[of stagedConfig] staged[of unofferedConfig]
  show ?thesis using g act c0
    by (simp add: stagedConfig_def unofferedConfig_def VK_PRESENT_MODE_FIFO_KHR_def) blast
qed

text \<open>
  Claim C10. \<^verbatim>\<open>vk2dRendererSetCamera\<close> on an initialised renderer stores the given
  specification in the default camera with \<^verbatim>\<open>wOnScreen\<close> and \<^verbatim>\<open>hOnScreen\<close> replaced by
  the surface width and height and \<^verbatim>\<open>xOnScreen\<close> and \<^verbatim>\<open>yOnScreen\<close> replaced by 0,
  whatever the caller supplied for them; the other members of the specification are
  the caller's, and no other camera and no surface size changes.
\<close>

theorem setCamera_overwrites_screen_placement:
  assumes g: "gRenderer p = Some r" and i: "VK2D_DEFAULT_CAMERA K < length (cameras r)"
  shows "\<exists>r'. vk2dRendererSetCamera K camera p = Inr (p\<lparr>gRenderer := Some r'\<rparr>) \<and>
     spec (cameras r' ! VK2D_DEFAULT_CAMERA K) =
       camera\<lparr>wOnScreen := real (surfaceWidth r), hOnScreen := real (surfaceHeight r),
              xOnScreen := 0, yOnScreen := 0\<rparr> \<and>
     wOnScreen (spec (cameras r' ! VK2D_DEFAULT_CAMERA K)) = real (surfaceWidth r) \<and>
     hOnScreen (spec (cameras r' ! VK2D_DEFAULT_CAMERA K)) = real (surfaceHeight r) \<and>
     xOnScreen (spec (cameras r' ! VK2D_DEFAULT_CAMERA K)) = 0 \<and>
     yOnScreen (spec (cameras r' ! VK2D_DEFAULT_CAMERA K)) = 0 \<and>
     otherMembers (spec (cameras r' ! VK2D_DEFAULT_CAMERA K)) = otherMembers camera \<and>
     length (cameras r') = length (cameras r) \<and>
     (\<forall>j. j \<noteq> VK2D_DEFAULT_CAMERA K \<longrightarrow> cameras r' ! j = cameras r ! j) \<and>
     surfaceWidth r' = surfaceWidth r \<and> surfaceHeight r' = surfaceHeight r"
proof -
  let ?s = "camera\<lparr>wOnScreen := real (surfaceWidth r), hOnScreen := real (surfaceHeight r),
              xOnScreen := 0, yOnScreen := 0\<rparr>"
  let ?r = "r\<lparr>cameras := (cameras r)[VK2D_DEFAULT_CAMERA K :=
              (cameras r ! VK2D_DEFAULT_CAMERA K)\<lparr>spec := ?s\<rparr>]\<rparr>"
  have "vk2dRendererSetCamera K camera p = Inr (p\<lparr>gRenderer := Some ?r\<rparr>)"
    using g i by (simp add: vk2dRendererSetCamera_def)
  moreover have "spec (cameras ?r ! VK2D_DEFAULT_CAMERA K) = ?s"
    using i by simp
  moreover have "length (cameras ?r) = length (cameras r)" by simp
  moreover have "\<forall>j. j \<noteq> VK2D_DEFAULT_CAMERA K \<longrightarrow> cameras ?r ! j = cameras r ! j"
    by simp
  moreover have "surfaceWidth ?r = surfaceWidth r \<and> surfaceHeight ?r = surfaceHeight r"
    by simp
  ultimately show ?thesis
    by (intro exI[of _ ?r]) simp
qed

theorem setCamera_overwrites_screen_placement_witness:
  "gRenderer exampleProgram = Some exampleRenderer \<and>
   VK2D_DEFAULT_CAMERA exampleK < length (cameras exampleRenderer) \<and>
   (\<exists>r'. vk2dRendererSetCamera exampleK exampleSpec exampleProgram =
            Inr (exampleProgram\<lparr>gRenderer := Some r'\<rparr>) \<and>
      spec (cameras r' ! 0) =
        \<lparr>xOnScreen = 0, yOnScreen = 0, wOnScreen = 800, hOnScreen = 600,
         otherMembers = (\<lambda>i. 1 + real i)\<rparr>)"
proof -
  have g: "gRenderer exampleProgram = Some exampleRenderer" by (simp add: exampleProgram_def)
  have i: "VK2D_DEFAULT_CAMERA exampleK < length (cameras exampleRenderer)"
    by (simp add: exampleK_def exampleRenderer_def)
  from setCamera_overwrites_screen_placement[OF g i, of exampleSpec]
  obtain r' where
    "vk2dRendererSetCamera exampleK exampleSpec exampleProgram =
            Inr (exampleProgram\<lparr>gRenderer := Some r'\<rparr>)"
    "spec (cameras r' ! VK2D_DEFAULT_CAMERA exampleK) =
       exampleSpec\<lparr>wOnScreen := real (surfaceWidth exampleRenderer),
                   hOnScreen := real (surfaceHeight exampleRenderer),
                   xOnScreen := 0, yOnScreen := 0\<rparr>"
    by blast
  then have "\<exists>r'. vk2dRendererSetCamera exampleK exampleSpec exampleProgram =
            Inr (exampleProgram\<lparr>gRenderer := Some r'\<rparr>) \<and>
      spec (cameras r' ! 0) =
        \<lparr>xOnScreen = 0, yOnScreen = 0, wOnScreen = 800, hOnScreen = 600,
         otherMembers = (\<lambda>i. 1 + real i)\<rparr>"
    by (auto simp: exampleK_def exampleSpec_def exampleRenderer_def)
  then show ?thesis using g i by blast
qed

end
